theory Spec2Isabelle
  imports Main
begin

section \<open>Data model\<close>

text \<open>
  The entity types of \<^verbatim>\<open>@/types\<close> as the validators and the store build them. Field
  names that several interfaces share (\<^verbatim>\<open>id\<close>, \<^verbatim>\<open>name\<close>, \<^verbatim>\<open>color\<close>, \<^verbatim>\<open>tags\<close>) carry the
  entity as a prefix. A nullable \<^verbatim>\<open>categoryId\<close> is an option, \<^verbatim>\<open>null\<close> being \<open>None\<close>.
  Strings are lists of code units; a \<^typ>\<open>char\<close> stands for a code unit below 256.
\<close>

record Todo =
  todo_id :: string
  title :: string
  completed :: bool
  categoryId :: "string option"
  todo_tags :: "string list"
  createdAt :: string
  updatedAt :: string

record Category =
  category_id :: string
  category_name :: string
  icon :: string
  category_color :: string

record Tag =
  tag_id :: string
  tag_name :: string
  tag_color :: string

text \<open>
  \<^verbatim>\<open>interface UserData\<close> of dataStore.ts. The declared type of \<^verbatim>\<open>todos\<close> is \<^verbatim>\<open>Todo[]\<close>, but
  the array that \<^verbatim>\<open>reorderUserTodos\<close> stores can hold \<^verbatim>\<open>undefined\<close>; a slot of the array is
  therefore an option, \<open>None\<close> being \<^verbatim>\<open>undefined\<close>.
\<close>

record UserData =
  todos :: "Todo option list"
  categories :: "Category list"
  tags :: "Tag list"
  migrated :: bool

text \<open>\<^verbatim>\<open>Partial<Todo>\<close>: every field may be absent.\<close>

record TodoUpdates =
  u_id :: "string option"
  u_title :: "string option"
  u_completed :: "bool option"
  u_categoryId :: "string option option"
  u_tags :: "string list option"
  u_createdAt :: "string option"
  u_updatedAt :: "string option"

text \<open>The module-level \<^verbatim>\<open>Map<string, UserData>\<close>.\<close>

type_synonym store = "string \<Rightarrow> UserData option"

text \<open>
  \<^verbatim>\<open>DEFAULT_CATEGORIES\<close> and \<^verbatim>\<open>DEFAULT_TAGS\<close> are imported from \<^verbatim>\<open>@/types\<close>, whose text is
  not part of the sources at hand; they are parameters of the model. So is the date parser
  of the runtime: \<open>parseDate s\<close> stands for \<^verbatim>\<open>new Date(s)\<close> followed by \<^verbatim>\<open>toISOString()\<close>, and
  is \<open>None\<close> when the date is invalid.
\<close>

record env =
  DEFAULT_CATEGORIES :: "Category list"
  DEFAULT_TAGS :: "Tag list"
  parseDate :: "string \<Rightarrow> string option"

text \<open>The one exception the store can raise: reading a property of \<^verbatim>\<open>undefined\<close>.\<close>

datatype exn = TypeError

section \<open>Array primitives of the language\<close>

text \<open>
  \<^verbatim>\<open>Array.prototype.splice(start, deleteCount, ...items)\<close>. The index argument is the
  integer the language reads from the number (truncation towards zero; an infinite value
  acts as any integer beyond the length). A negative start counts from the end, and the
  start is clamped to the array. The result is the array of removed elements and the
  array after the call.
\<close>

definition clamp_index :: "int \<Rightarrow> nat \<Rightarrow> nat" where
  "clamp_index relativeStart len =
     (if relativeStart < 0 then nat (max (int len + relativeStart) 0)
      else min (nat relativeStart) len)"

definition array_splice :: "'a list \<Rightarrow> int \<Rightarrow> nat \<Rightarrow> 'a list \<Rightarrow> 'a list \<times> 'a list" where
  "array_splice xs start deleteCount items =
     (let actualStart = clamp_index start (length xs);
          actualDeleteCount = min deleteCount (length xs - actualStart)
      in (take actualDeleteCount (drop actualStart xs),
          take actualStart xs @ items @ drop (actualStart + actualDeleteCount) xs))"

text \<open>
  \<^verbatim>\<open>todos.findIndex((t) => t.id === todoId)\<close>: the callback reads \<^verbatim>\<open>t.id\<close>, which throws on
  an \<^verbatim>\<open>undefined\<close> slot met before a match. \<open>None\<close> is the result \<^verbatim>\<open>-1\<close>.
\<close>

fun findIndex_id :: "Todo option list \<Rightarrow> string \<Rightarrow> exn + nat option" where
  "findIndex_id [] todoId = Inr None"
| "findIndex_id (None # ts) todoId = Inl TypeError"
| "findIndex_id (Some t # ts) todoId =
     (if todo_id t = todoId then Inr (Some 0)
      else (case findIndex_id ts todoId of
              Inr (Some i) \<Rightarrow> Inr (Some (Suc i))
            | r \<Rightarrow> r))"

text \<open>
  \<^verbatim>\<open>map\<close> and \<^verbatim>\<open>filter\<close> with a callback that reads a property of its element visit every
  slot, and throw at the first \<^verbatim>\<open>undefined\<close> one. \<open>deref_all\<close> is that traversal: the
  elements, or the exception.
\<close>

fun deref_all :: "Todo option list \<Rightarrow> exn + Todo list" where
  "deref_all [] = Inr []"
| "deref_all (None # ts) = Inl TypeError"
| "deref_all (Some t # ts) =
     (case deref_all ts of Inl e \<Rightarrow> Inl e | Inr r \<Rightarrow> Inr (t # r))"

section \<open>The per-user store (dataStore.ts)\<close>

text \<open>
  Every operation takes the store and returns its result with the store after the call.
  \<^verbatim>\<open>getUserData\<close> returns the object held in the map, so an assignment to one of its
  fields is an update of the store at once; where an exception can follow such an
  assignment, the store returned with the exception holds it.
\<close>

definition getDefaultUserData :: "env \<Rightarrow> UserData" where
  "getDefaultUserData e =
     \<lparr>todos = [], categories = DEFAULT_CATEGORIES e, tags = DEFAULT_TAGS e, migrated = False\<rparr>"

definition getUserData :: "env \<Rightarrow> store \<Rightarrow> string \<Rightarrow> UserData \<times> store" where
  "getUserData e st userId =
     (case st userId of
        None \<Rightarrow> (getDefaultUserData e, st(userId \<mapsto> getDefaultUserData e))
      | Some userData \<Rightarrow> (userData, st))"

text \<open>
  \<^verbatim>\<open>setUserData(userId, data: Partial<UserData>)\<close>: the fields present in \<^verbatim>\<open>data\<close> replace
  the current ones.
\<close>

record UserDataUpdates =
  d_todos :: "Todo option list option"
  d_categories :: "Category list option"
  d_tags :: "Tag list option"
  d_migrated :: "bool option"

definition setUserData :: "env \<Rightarrow> store \<Rightarrow> string \<Rightarrow> UserDataUpdates \<Rightarrow> UserData \<times> store" where
  "setUserData e st userId data =
     (let (currentData, st1) = getUserData e st userId;
          newData = \<lparr>todos = (case d_todos data of None \<Rightarrow> todos currentData | Some v \<Rightarrow> v),
                     categories = (case d_categories data of None \<Rightarrow> categories currentData | Some v \<Rightarrow> v),
                     tags = (case d_tags data of None \<Rightarrow> tags currentData | Some v \<Rightarrow> v),
                     migrated = (case d_migrated data of None \<Rightarrow> migrated currentData | Some v \<Rightarrow> v)\<rparr>
      in (newData, st1(userId \<mapsto> newData)))"

definition getUserTodos :: "env \<Rightarrow> store \<Rightarrow> string \<Rightarrow> Todo option list \<times> store" where
  "getUserTodos e st userId =
     (let (userData, st1) = getUserData e st userId in (todos userData, st1))"

definition addUserTodo :: "env \<Rightarrow> store \<Rightarrow> string \<Rightarrow> Todo \<Rightarrow> Todo \<times> store" where
  "addUserTodo e st userId todo =
     (let (userData, st1) = getUserData e st userId;
          userData1 = userData\<lparr>todos := Some todo # todos userData\<rparr>
      in (todo, st1(userId \<mapsto> userData1)))"

text \<open>\<^verbatim>\<open>{...old, ...updates, updatedAt: now}\<close>.\<close>

definition merge_todo :: "Todo \<Rightarrow> TodoUpdates \<Rightarrow> string \<Rightarrow> Todo" where
  "merge_todo old updates now =
     \<lparr>todo_id = (case u_id updates of None \<Rightarrow> todo_id old | Some v \<Rightarrow> v),
      title = (case u_title updates of None \<Rightarrow> title old | Some v \<Rightarrow> v),
      completed = (case u_completed updates of None \<Rightarrow> completed old | Some v \<Rightarrow> v),
      categoryId = (case u_categoryId updates of None \<Rightarrow> categoryId old | Some v \<Rightarrow> v),
      todo_tags = (case u_tags updates of None \<Rightarrow> todo_tags old | Some v \<Rightarrow> v),
      createdAt = (case u_createdAt updates of None \<Rightarrow> createdAt old | Some v \<Rightarrow> v),
      updatedAt = now\<rparr>"

text \<open>
  \<^verbatim>\<open>updateUserTodo\<close>; \<open>now\<close> is \<^verbatim>\<open>new Date().toISOString()\<close> at the call. The result
  \<open>None\<close> is \<^verbatim>\<open>null\<close>. The slot at the index found holds a Todo, since the callback of
  \<^verbatim>\<open>findIndex\<close> has read its \<^verbatim>\<open>id\<close>.
\<close>

definition updateUserTodo ::
  "env \<Rightarrow> store \<Rightarrow> string \<Rightarrow> string \<Rightarrow> TodoUpdates \<Rightarrow> string \<Rightarrow> (exn + Todo option) \<times> store" where
  "updateUserTodo e st userId todoId updates now =
     (let (userData, st1) = getUserData e st userId in
      case findIndex_id (todos userData) todoId of
        Inl ex \<Rightarrow> (Inl ex, st1)
      | Inr None \<Rightarrow> (Inr None, st1)
      | Inr (Some todoIndex) \<Rightarrow>
          (case todos userData ! todoIndex of
             None \<Rightarrow> (Inl TypeError, st1)
           | Some old \<Rightarrow>
               (let new = merge_todo old updates now;
                    userData1 = userData\<lparr>todos := (todos userData)[todoIndex := Some new]\<rparr>
                in (Inr (Some new), st1(userId \<mapsto> userData1)))))"

definition deleteUserTodo :: "env \<Rightarrow> store \<Rightarrow> string \<Rightarrow> string \<Rightarrow> (exn + bool) \<times> store" where
  "deleteUserTodo e st userId todoId =
     (let (userData, st1) = getUserData e st userId;
          initialLength = length (todos userData)
      in case deref_all (todos userData) of
           Inl ex \<Rightarrow> (Inl ex, st1)
         | Inr ts \<Rightarrow>
             (let userData1 = userData\<lparr>todos := map Some (filter (\<lambda>t. todo_id t \<noteq> todoId) ts)\<rparr>
              in (Inr (length (todos userData1) < initialLength), st1(userId \<mapsto> userData1))))"

text \<open>
  \<^verbatim>\<open>reorderUserTodos\<close>. \<^verbatim>\<open>const [removed] = newTodos.splice(fromIndex, 1)\<close> binds the first
  removed element, or \<^verbatim>\<open>undefined\<close> when nothing was removed.
\<close>

definition reorderUserTodos ::
  "env \<Rightarrow> store \<Rightarrow> string \<Rightarrow> int \<Rightarrow> int \<Rightarrow> Todo option list \<times> store" where
  "reorderUserTodos e st userId fromIndex toIndex =
     (let (userData, st1) = getUserData e st userId;
          newTodos = todos userData;
          (removedItems, newTodos1) = array_splice newTodos fromIndex 1 [];
          removed = (case removedItems of [] \<Rightarrow> None | r # _ \<Rightarrow> r);
          (_, newTodos2) = array_splice newTodos1 toIndex 0 [removed];
          userData1 = userData\<lparr>todos := newTodos2\<rparr>
      in (todos userData1, st1(userId \<mapsto> userData1)))"

definition getUserCategories :: "env \<Rightarrow> store \<Rightarrow> string \<Rightarrow> Category list \<times> store" where
  "getUserCategories e st userId =
     (let (userData, st1) = getUserData e st userId in (categories userData, st1))"

definition addUserCategory :: "env \<Rightarrow> store \<Rightarrow> string \<Rightarrow> Category \<Rightarrow> Category \<times> store" where
  "addUserCategory e st userId category =
     (let (userData, st1) = getUserData e st userId;
          userData1 = userData\<lparr>categories := categories userData @ [category]\<rparr>
      in (category, st1(userId \<mapsto> userData1)))"

text \<open>
  \<^verbatim>\<open>deleteUserCategory\<close>: the category collection is assigned before the todos are mapped,
  so it stays filtered when the callback throws on an \<^verbatim>\<open>undefined\<close> slot.
\<close>

definition deleteUserCategory :: "env \<Rightarrow> store \<Rightarrow> string \<Rightarrow> string \<Rightarrow> (exn + bool) \<times> store" where
  "deleteUserCategory e st userId cid =
     (let (userData, st1) = getUserData e st userId;
          initialLength = length (categories userData);
          userData1 = userData\<lparr>categories := filter (\<lambda>c. category_id c \<noteq> cid) (categories userData)\<rparr>
      in case deref_all (todos userData1) of
           Inl ex \<Rightarrow> (Inl ex, st1(userId \<mapsto> userData1))
         | Inr ts \<Rightarrow>
             (let userData2 = userData1\<lparr>todos :=
                    map (\<lambda>todo. Some (if categoryId todo = Some cid
                                       then todo\<lparr>categoryId := None\<rparr> else todo)) ts\<rparr>
              in (Inr (length (categories userData2) < initialLength), st1(userId \<mapsto> userData2))))"

definition getUserTags :: "env \<Rightarrow> store \<Rightarrow> string \<Rightarrow> Tag list \<times> store" where
  "getUserTags e st userId =
     (let (userData, st1) = getUserData e st userId in (tags userData, st1))"

definition addUserTag :: "env \<Rightarrow> store \<Rightarrow> string \<Rightarrow> Tag \<Rightarrow> Tag \<times> store" where
  "addUserTag e st userId tag =
     (let (userData, st1) = getUserData e st userId;
          userData1 = userData\<lparr>tags := tags userData @ [tag]\<rparr>
      in (tag, st1(userId \<mapsto> userData1)))"

definition deleteUserTag :: "env \<Rightarrow> store \<Rightarrow> string \<Rightarrow> string \<Rightarrow> (exn + bool) \<times> store" where
  "deleteUserTag e st userId tid =
     (let (userData, st1) = getUserData e st userId;
          initialLength = length (tags userData);
          userData1 = userData\<lparr>tags := filter (\<lambda>t. tag_id t \<noteq> tid) (tags userData)\<rparr>
      in case deref_all (todos userData1) of
           Inl ex \<Rightarrow> (Inl ex, st1(userId \<mapsto> userData1))
         | Inr ts \<Rightarrow>
             (let userData2 = userData1\<lparr>todos :=
                    map (\<lambda>todo. Some (todo\<lparr>todo_tags := filter (\<lambda>t. t \<noteq> tid) (todo_tags todo)\<rparr>)) ts\<rparr>
              in (Inr (length (tags userData2) < initialLength), st1(userId \<mapsto> userData2))))"

definition hasUserMigrated :: "env \<Rightarrow> store \<Rightarrow> string \<Rightarrow> bool \<times> store" where
  "hasUserMigrated e st userId =
     (let (userData, st1) = getUserData e st userId in (migrated userData, st1))"

definition setUserMigrated :: "env \<Rightarrow> store \<Rightarrow> string \<Rightarrow> store" where
  "setUserMigrated e st userId =
     (let (userData, st1) = getUserData e st userId
      in st1(userId \<mapsto> userData\<lparr>migrated := True\<rparr>))"

text \<open>The argument of \<^verbatim>\<open>importUserData\<close>, which is also the \<^verbatim>\<open>TodoState\<close> of the validator.\<close>

record TodoState =
  s_todos :: "Todo list"
  s_categories :: "Category list"
  s_tags :: "Tag list"

definition importUserData :: "env \<Rightarrow> store \<Rightarrow> string \<Rightarrow> TodoState \<Rightarrow> UserData \<times> store" where
  "importUserData e st userId data =
     (let (userData, st1) = getUserData e st userId;
          userData1 = userData\<lparr>todos := map Some (s_todos data),
                                categories := s_categories data,
                                tags := s_tags data,
                                migrated := True\<rparr>
      in (userData1, st1(userId \<mapsto> userData1)))"

section \<open>Untrusted input (validation.ts)\<close>

text \<open>
  A value decoded from JSON. A number is kept as the integer that the array operations
  read from it, the only use the code makes of a number. An object is the list of its
  properties, each name once, as the decoder leaves it. Reading a property gives an
  option, \<open>None\<close> being \<^verbatim>\<open>undefined\<close>.
\<close>

datatype json =
    JNull
  | JBool bool
  | JNum int
  | JStr string
  | JArr "json list"
  | JObj "(string \<times> json) list"

text \<open>
  \<^verbatim>\<open>(input as Record<string, unknown>).k\<close> for the property names the validators read,
  none of which an array or a primitive value has.
\<close>

fun read_prop :: "json \<Rightarrow> string \<Rightarrow> json option" where
  "read_prop (JObj kvs) k = map_of kvs k"
| "read_prop _ k = None"

text \<open>\<^verbatim>\<open>"k" in i\<close>, for an \<open>i\<close> that passed the object guard.\<close>

fun has_prop :: "json \<Rightarrow> string \<Rightarrow> bool" where
  "has_prop (JObj kvs) k = (map_of kvs k \<noteq> None)"
| "has_prop _ k = False"

text \<open>
  The guard \<^verbatim>\<open>!x || typeof x !== "object"\<close>: \<^verbatim>\<open>null\<close> is falsy, a boolean, a number and a
  string are not of type object, an array and an object pass.
\<close>

fun not_object :: "json \<Rightarrow> bool" where
  "not_object JNull = True"
| "not_object (JBool b) = True"
| "not_object (JNum n) = True"
| "not_object (JStr s) = True"
| "not_object (JArr xs) = False"
| "not_object (JObj kvs) = False"

text \<open>\<^verbatim>\<open>v !== null && v !== undefined\<close>\<close>

definition is_given :: "json option \<Rightarrow> bool" where
  "is_given v = (v \<noteq> Some JNull \<and> v \<noteq> None)"

text \<open>\<^verbatim>\<open>!s\<close> for an \<open>s\<close> of type \<^verbatim>\<open>string | null\<close>.\<close>

fun falsy :: "string option \<Rightarrow> bool" where
  "falsy None = True"
| "falsy (Some s) = (s = [])"

definition MAX_TITLE_LENGTH :: nat where "MAX_TITLE_LENGTH = 500"
definition MAX_NAME_LENGTH :: nat where "MAX_NAME_LENGTH = 100"
definition MAX_ICON_LENGTH :: nat where "MAX_ICON_LENGTH = 50"
definition MAX_ID_LENGTH :: nat where "MAX_ID_LENGTH = 100"
definition MAX_TODOS :: nat where "MAX_TODOS = 10000"
definition MAX_CATEGORIES :: nat where "MAX_CATEGORIES = 100"
definition MAX_TAGS :: nat where "MAX_TAGS = 100"
definition MAX_TAGS_PER_TODO :: nat where "MAX_TAGS_PER_TODO = 20"

subsection \<open>Character classes and the built-in string operations\<close>

definition is_digit :: "char \<Rightarrow> bool" where
  "is_digit c = (c \<in> set ''0123456789'')"

definition is_hex :: "char \<Rightarrow> bool" where
  "is_hex c = (c \<in> set ''0123456789abcdefABCDEF'')"

definition is_alpha :: "char \<Rightarrow> bool" where
  "is_alpha c = (c \<in> set ''abcdefghijklmnopqrstuvwxyzABCDEFGHIJKLMNOPQRSTUVWXYZ'')"

text \<open>The class \<^verbatim>\<open>\w\<close>.\<close>

definition is_word :: "char \<Rightarrow> bool" where
  "is_word c = (is_alpha c \<or> is_digit c \<or> c = CHR ''_'')"

text \<open>
  White space as \<^verbatim>\<open>trim\<close> and the class \<^verbatim>\<open>\s\<close> know it, among the code units below 256:
  tab, line feed, vertical tab, form feed, carriage return, space and no-break space.
\<close>

definition is_space :: "char \<Rightarrow> bool" where
  "is_space c = (c \<in> set [CHR 0x09, CHR 0x0A, CHR 0x0B, CHR 0x0C, CHR 0x0D, CHR 0x20, CHR 0xA0])"

definition trim :: "string \<Rightarrow> string" where
  "trim s = rev (dropWhile is_space (rev (dropWhile is_space s)))"

text \<open>
  Matching under the flag \<^verbatim>\<open>i\<close>: a letter of the pattern matches itself in either case.
\<close>

definition lower :: "char \<Rightarrow> char" where
  "lower c =
     (case map_of (zip ''ABCDEFGHIJKLMNOPQRSTUVWXYZ'' ''abcdefghijklmnopqrstuvwxyz'') c of
        None \<Rightarrow> c
      | Some d \<Rightarrow> d)"

text \<open>The text starts with the literal \<open>p\<close> (given in lower case), ignoring case.\<close>

definition ci_prefix :: "string \<Rightarrow> string \<Rightarrow> bool" where
  "ci_prefix p s = (length p \<le> length s \<and> map lower (take (length p) s) = p)"

text \<open>
  A whole-string match (\<^verbatim>\<open>^...$\<close>) against a pattern of fixed length, written as a
  template: \<open>d\<close> is a digit, \<open>h\<close> a hexadecimal digit, \<open>v\<close> one of \<^verbatim>\<open>[1-5]\<close>, \<open>r\<close> one of
  \<^verbatim>\<open>[89ab]\<close> in either case, any other character itself.
\<close>

fun match_template :: "string \<Rightarrow> string \<Rightarrow> bool" where
  "match_template [] [] = True"
| "match_template (p # ps) (c # cs) =
     ((if p = CHR ''d'' then is_digit c
       else if p = CHR ''h'' then is_hex c
       else if p = CHR ''v'' then c \<in> set ''12345''
       else if p = CHR ''r'' then c \<in> set ''89abAB''
       else c = p) \<and> match_template ps cs)"
| "match_template _ _ = False"

text \<open>\<^verbatim>\<open>/^#[0-9A-Fa-f]{6}$/\<close>\<close>

definition HEX_COLOR_REGEX :: "string \<Rightarrow> bool" where
  "HEX_COLOR_REGEX s = match_template ''#hhhhhh'' s"

text \<open>\<^verbatim>\<open>/^[a-zA-Z0-9_-]+$/\<close>\<close>

definition SAFE_ID_REGEX :: "string \<Rightarrow> bool" where
  "SAFE_ID_REGEX s = (s \<noteq> [] \<and> list_all (\<lambda>c. is_alpha c \<or> is_digit c \<or> c = CHR ''_'' \<or> c = CHR ''-'') s)"

text \<open>\<^verbatim>\<open>/^\d{4}-\d{2}-\d{2}T\d{2}:\d{2}:\d{2}(\.\d{3})?Z$/\<close>\<close>

definition ISO_DATE_REGEX :: "string \<Rightarrow> bool" where
  "ISO_DATE_REGEX s =
     (match_template ''dddd-dd-ddTdd:dd:ddZ'' s \<or> match_template ''dddd-dd-ddTdd:dd:dd.dddZ'' s)"

text \<open>
  \<^verbatim>\<open>/^[0-9a-f]{8}-[0-9a-f]{4}-[1-5][0-9a-f]{3}-[89ab][0-9a-f]{3}-[0-9a-f]{12}$/i\<close>
\<close>

definition isValidUUID :: "string \<Rightarrow> bool" where
  "isValidUUID str = match_template ''hhhhhhhh-hhhh-vhhh-rhhh-hhhhhhhhhhhh'' str"

subsection \<open>The two replacements of the sanitizer\<close>

text \<open>
  \<^verbatim>\<open>s.replace(re, "")\<close> with a global pattern: scanning from the left, each match is left
  out and the scan goes on behind it; a character at which the pattern does not match is
  kept. The pattern is given as the function that says how long its match at the start of
  a text is. Neither pattern below matches the empty string.
\<close>

fun replace_all :: "(string \<Rightarrow> nat option) \<Rightarrow> string \<Rightarrow> string" where
  "replace_all m [] = []"
| "replace_all m (c # cs) =
     (case m (c # cs) of
        None \<Rightarrow> c # replace_all m cs
      | Some 0 \<Rightarrow> c # replace_all m cs
      | Some (Suc k) \<Rightarrow> replace_all m (drop k cs))"

text \<open>
  The tail \<^verbatim>\<open>[^<]*(?:(?!<\/script>)<[^<]*)*<\/script>\<close> of the first pattern: it runs over
  any characters up to the first place where \<^verbatim>\<open></script>\<close> stands, and over that closing
  tag. The result is the number of characters matched.
\<close>

fun script_end :: "string \<Rightarrow> nat option" where
  "script_end [] = None"
| "script_end (c # cs) =
     (if ci_prefix ''</script>'' (c # cs) then Some 9
      else map_option Suc (script_end cs))"

text \<open>
  \<^verbatim>\<open>/<script\b[^<]*(?:(?!<\/script>)<[^<]*)*<\/script>/gi\<close> at the start of a text. The
  boundary \<^verbatim>\<open>\b\<close> behind \<^verbatim>\<open><script\<close> asks for the end of the text or a character that
  is not of the class \<^verbatim>\<open>\w\<close>.
\<close>

definition match_script :: "string \<Rightarrow> nat option" where
  "match_script s =
     (if ci_prefix ''<script'' s \<and> (case drop 7 s of [] \<Rightarrow> True | c # _ \<Rightarrow> \<not> is_word c)
      then map_option (\<lambda>n. 7 + n) (script_end (drop 7 s))
      else None)"

text \<open>
  \<^verbatim>\<open>/on\w+\s*=/gi\<close> at the start of a text. The three classes are disjoint, so the
  greedy runs are the only way to match.
\<close>

definition match_handler :: "string \<Rightarrow> nat option" where
  "match_handler s =
     (if ci_prefix ''on'' s then
        (let name = takeWhile is_word (drop 2 s);
             rest = dropWhile is_word (drop 2 s);
             spaces = takeWhile is_space rest
         in if name \<noteq> [] \<and> (case dropWhile is_space rest of [] \<Rightarrow> False | c # _ \<Rightarrow> c = CHR ''='')
            then Some (2 + length name + length spaces + 1)
            else None)
      else None)"

definition sanitizeString :: "json option \<Rightarrow> nat \<Rightarrow> string option" where
  "sanitizeString input maxLength =
     (case input of
        Some (JStr s) \<Rightarrow>
          (let sanitized = take maxLength (trim s)
           in Some (replace_all match_handler (replace_all match_script sanitized)))
      | _ \<Rightarrow> None)"

definition validateId :: "json option \<Rightarrow> string option" where
  "validateId i =
     (case i of
        Some (JStr s) \<Rightarrow>
          (let sanitized = take MAX_ID_LENGTH (trim s)
           in if \<not> SAFE_ID_REGEX sanitized \<and> \<not> isValidUUID sanitized then None
              else Some sanitized)
      | _ \<Rightarrow> None)"

definition validateColor :: "json option \<Rightarrow> string option" where
  "validateColor color =
     (case color of
        Some (JStr s) \<Rightarrow> (let trimmed = trim s in if \<not> HEX_COLOR_REGEX trimmed then None else Some trimmed)
      | _ \<Rightarrow> None)"

text \<open>
  \<^verbatim>\<open>validateISODate\<close>, given the date parser of the runtime.
\<close>

definition validateISODate :: "(string \<Rightarrow> string option) \<Rightarrow> json option \<Rightarrow> string option" where
  "validateISODate parse date =
     (case date of
        Some (JStr s) \<Rightarrow>
          (let trimmed = trim s in if \<not> ISO_DATE_REGEX trimmed then parse trimmed else Some trimmed)
      | _ \<Rightarrow> None)"

record 'a ValidationResult =
  valid :: bool
  data :: "'a option"
  errors :: "string list"

text \<open>The tags of an input: \<^verbatim>\<open>tags.slice(0, 20).map(validateId).filter(tag => tag !== null)\<close>.\<close>

definition validTags_of :: "json list \<Rightarrow> string list" where
  "validTags_of xs = List.map_filter (\<lambda>tag. validateId (Some tag)) (take MAX_TAGS_PER_TODO xs)"

text \<open>\<^verbatim>\<open>v || now\<close> for a \<open>v\<close> of type \<^verbatim>\<open>string | null\<close>.\<close>

definition or_now :: "string option \<Rightarrow> string \<Rightarrow> string" where
  "or_now v now = (if falsy v then now else the v)"

text \<open>
  \<^verbatim>\<open>validateTodo\<close>; \<open>now\<close> is \<^verbatim>\<open>new Date().toISOString()\<close> at the call. In the valid branch
  \<open>id\<close> and \<open>title\<close> are strings, as no error was pushed.
\<close>

definition validateTodo :: "(string \<Rightarrow> string option) \<Rightarrow> string \<Rightarrow> json \<Rightarrow> Todo ValidationResult" where
  "validateTodo parse now todo =
     (if not_object todo then \<lparr>valid = False, data = None, errors = [''Todo must be an object'']\<rparr>
      else
        (let i = validateId (read_prop todo ''id'');
             errors1 = (if falsy i then [''Invalid or missing todo ID''] else []);
             t = sanitizeString (read_prop todo ''title'') MAX_TITLE_LENGTH;
             errors2 = errors1 @ (if falsy t \<or> length (the t) = 0 then [''Invalid or missing todo title''] else []);
             done = (case read_prop todo ''completed'' of Some (JBool b) \<Rightarrow> b | _ \<Rightarrow> False);
             cat = (if is_given (read_prop todo ''categoryId'')
                    then validateId (read_prop todo ''categoryId'') else None);
             errors3 = errors2 @
               (if is_given (read_prop todo ''categoryId'') \<and>
                   (cat = None \<and> read_prop todo ''categoryId'' \<noteq> Some JNull)
                then [''Invalid category ID format''] else []);
             ts = (case read_prop todo ''tags'' of Some (JArr xs) \<Rightarrow> validTags_of xs | _ \<Rightarrow> []);
             created = or_now (validateISODate parse (read_prop todo ''createdAt'')) now;
             updated = or_now (validateISODate parse (read_prop todo ''updatedAt'')) now
         in if length errors3 > 0 then \<lparr>valid = False, data = None, errors = errors3\<rparr>
            else \<lparr>valid = True,
                  data = Some \<lparr>todo_id = the i, title = the t, completed = done, categoryId = cat,
                               todo_tags = ts, createdAt = created, updatedAt = updated\<rparr>,
                  errors = []\<rparr>))"

definition validateCategory :: "json \<Rightarrow> Category ValidationResult" where
  "validateCategory category =
     (if not_object category then \<lparr>valid = False, data = None, errors = [''Category must be an object'']\<rparr>
      else
        (let i = validateId (read_prop category ''id'');
             errors1 = (if falsy i then [''Invalid or missing category ID''] else []);
             n = sanitizeString (read_prop category ''name'') MAX_NAME_LENGTH;
             errors2 = errors1 @ (if falsy n \<or> length (the n) = 0 then [''Invalid or missing category name''] else []);
             ic = sanitizeString (read_prop category ''icon'') MAX_ICON_LENGTH;
             errors3 = errors2 @ (if falsy ic \<or> length (the ic) = 0 then [''Invalid or missing category icon''] else []);
             col = validateColor (read_prop category ''color'');
             errors4 = errors3 @ (if falsy col
                                  then [''Invalid or missing category color (must be hex format #RRGGBB)'']
                                  else [])
         in if length errors4 > 0 then \<lparr>valid = False, data = None, errors = errors4\<rparr>
            else \<lparr>valid = True,
                  data = Some \<lparr>category_id = the i, category_name = the n, icon = the ic,
                               category_color = the col\<rparr>,
                  errors = []\<rparr>))"

definition validateTag :: "json \<Rightarrow> Tag ValidationResult" where
  "validateTag tag =
     (if not_object tag then \<lparr>valid = False, data = None, errors = [''Tag must be an object'']\<rparr>
      else
        (let i = validateId (read_prop tag ''id'');
             errors1 = (if falsy i then [''Invalid or missing tag ID''] else []);
             n = sanitizeString (read_prop tag ''name'') MAX_NAME_LENGTH;
             errors2 = errors1 @ (if falsy n \<or> length (the n) = 0 then [''Invalid or missing tag name''] else []);
             col = validateColor (read_prop tag ''color'');
             errors3 = errors2 @ (if falsy col
                                  then [''Invalid or missing tag color (must be hex format #RRGGBB)'']
                                  else [])
         in if length errors3 > 0 then \<lparr>valid = False, data = None, errors = errors3\<rparr>
            else \<lparr>valid = True,
                  data = Some \<lparr>tag_id = the i, tag_name = the n, tag_color = the col\<rparr>,
                  errors = []\<rparr>))"

subsection \<open>Bulk validation of a whole state\<close>

text \<open>The decimal text of an index, as a template literal prints it.\<close>

fun show_nat :: "nat \<Rightarrow> string" where
  "show_nat n =
     (if n < 10 then [''0123456789'' ! n]
      else show_nat (n div 10) @ [''0123456789'' ! (n mod 10)])"

text \<open>\<^verbatim>\<open>errors.join(", ")\<close>\<close>

fun join_errors :: "string list \<Rightarrow> string" where
  "join_errors [] = []"
| "join_errors [x] = x"
| "join_errors (x # y # ys) = x @ '', '' @ join_errors (y # ys)"

text \<open>
  One of the three loops of \<^verbatim>\<open>validateTodoState\<close>, which differ in the validator and in
  the word that starts the message: the items accepted, in order, and the messages pushed,
  in order. \<open>i\<close> is the index of the first item of the list.
\<close>

fun validate_each ::
  "(json \<Rightarrow> 'a ValidationResult) \<Rightarrow> string \<Rightarrow> nat \<Rightarrow> json list \<Rightarrow> 'a list \<times> string list" where
  "validate_each validate label i [] = ([], [])"
| "validate_each validate label i (x # xs) =
     (let result = validate x;
          (accepted, messages) = validate_each validate label (Suc i) xs
      in case (valid result, data result) of
           (True, Some d) \<Rightarrow> (d # accepted, messages)
         | _ \<Rightarrow> (accepted,
                 (label @ '' at index '' @ show_nat i @ '': '' @ join_errors (errors result)) # messages))"

text \<open>The callback of the cross-validation.\<close>

definition cross_validate :: "string list \<Rightarrow> string list \<Rightarrow> Todo \<Rightarrow> Todo" where
  "cross_validate categoryIds tagIds todo =
     todo\<lparr>categoryId :=
            (case categoryId todo of
               None \<Rightarrow> None
             | Some c \<Rightarrow> if c \<noteq> [] \<and> c \<in> set categoryIds then Some c else None),
          todo_tags := filter (\<lambda>tagId. tagId \<in> set tagIds) (todo_tags todo)\<rparr>"

definition validateTodoState ::
  "(string \<Rightarrow> string option) \<Rightarrow> string \<Rightarrow> json \<Rightarrow> TodoState ValidationResult" where
  "validateTodoState parse now state =
     (if not_object state then \<lparr>valid = False, data = None, errors = [''State must be an object'']\<rparr>
      else
        (let (validTodos, errors1) =
               (case read_prop state ''todos'' of
                  Some (JArr xs) \<Rightarrow> validate_each (validateTodo parse now) ''Todo'' 0 (take MAX_TODOS xs)
                | _ \<Rightarrow> ([], []));
             (validCategories, errors2) =
               (case read_prop state ''categories'' of
                  Some (JArr xs) \<Rightarrow> validate_each validateCategory ''Category'' 0 (take MAX_CATEGORIES xs)
                | _ \<Rightarrow> ([], []));
             (validTags, errors3) =
               (case read_prop state ''tags'' of
                  Some (JArr xs) \<Rightarrow> validate_each validateTag ''Tag'' 0 (take MAX_TAGS xs)
                | _ \<Rightarrow> ([], []));
             categoryIds = map category_id validCategories;
             tagIds = map tag_id validTags;
             crossValidatedTodos = map (cross_validate categoryIds tagIds) validTodos
         in \<lparr>valid = True,
              data = Some \<lparr>s_todos = crossValidatedTodos, s_categories = validCategories,
                           s_tags = validTags\<rparr>,
              errors = errors1 @ errors2 @ errors3\<rparr>))"

subsection \<open>Validation of the inputs of the endpoints\<close>

record NewTodoInput =
  n_title :: string
  n_categoryId :: "string option"
  n_tags :: "string list"

definition validateNewTodoInput :: "json \<Rightarrow> NewTodoInput ValidationResult" where
  "validateNewTodoInput input =
     (if not_object input then \<lparr>valid = False, data = None, errors = [''Input must be an object'']\<rparr>
      else
        (let t = sanitizeString (read_prop input ''title'') MAX_TITLE_LENGTH;
             errors1 = (if falsy t \<or> length (the t) = 0
                        then [''Title is required and must be a non-empty string''] else []);
             cat = (if is_given (read_prop input ''categoryId'')
                    then validateId (read_prop input ''categoryId'') else None);
             ts = (case read_prop input ''tags'' of Some (JArr xs) \<Rightarrow> validTags_of xs | _ \<Rightarrow> [])
         in if length errors1 > 0 then \<lparr>valid = False, data = None, errors = errors1\<rparr>
            else \<lparr>valid = True,
                  data = Some \<lparr>n_title = the t, n_categoryId = cat, n_tags = ts\<rparr>,
                  errors = []\<rparr>))"

text \<open>
  \<^verbatim>\<open>validateUpdateTodoInput\<close>: the four blocks, each returning the update so far and the
  errors so far.
\<close>

definition no_updates :: TodoUpdates where
  "no_updates =
     \<lparr>u_id = None, u_title = None, u_completed = None, u_categoryId = None, u_tags = None,
      u_createdAt = None, u_updatedAt = None\<rparr>"

definition validateUpdateTodoInput :: "json \<Rightarrow> TodoUpdates ValidationResult" where
  "validateUpdateTodoInput input =
     (if not_object input then \<lparr>valid = False, data = None, errors = [''Input must be an object'']\<rparr>
      else
        (let (updates1, errors1) =
               (if has_prop input ''title'' then
                  (let t = sanitizeString (read_prop input ''title'') MAX_TITLE_LENGTH
                   in if falsy t \<or> length (the t) = 0
                      then (no_updates, [''Title must be a non-empty string''])
                      else (no_updates\<lparr>u_title := t\<rparr>, []))
                else (no_updates, []));
             (updates2, errors2) =
               (if has_prop input ''completed'' then
                  (case read_prop input ''completed'' of
                     Some (JBool b) \<Rightarrow> (updates1\<lparr>u_completed := Some b\<rparr>, errors1)
                   | _ \<Rightarrow> (updates1, errors1 @ [''Completed must be a boolean'']))
                else (updates1, errors1));
             (updates3, errors3) =
               (if has_prop input ''categoryId'' then
                  (case read_prop input ''categoryId'' of
                     Some JNull \<Rightarrow> (updates2\<lparr>u_categoryId := Some None\<rparr>, errors2)
                   | v \<Rightarrow>
                       (case validateId v of
                          None \<Rightarrow> (updates2, errors2 @ [''Invalid category ID format''])
                        | Some c \<Rightarrow> (updates2\<lparr>u_categoryId := Some (Some c)\<rparr>, errors2)))
                else (updates2, errors2));
             (updates4, errors4) =
               (if has_prop input ''tags'' then
                  (case read_prop input ''tags'' of
                     Some (JArr xs) \<Rightarrow> (updates3\<lparr>u_tags := Some (validTags_of xs)\<rparr>, errors3)
                   | _ \<Rightarrow> (updates3, errors3 @ [''Tags must be an array'']))
                else (updates3, errors3))
         in if length errors4 > 0 then \<lparr>valid = False, data = None, errors = errors4\<rparr>
            else \<lparr>valid = True, data = Some updates4, errors = []\<rparr>))"

record NewCategoryInput =
  nc_name :: string
  nc_icon :: string
  nc_color :: string

definition validateNewCategoryInput :: "json \<Rightarrow> NewCategoryInput ValidationResult" where
  "validateNewCategoryInput input =
     (if not_object input then \<lparr>valid = False, data = None, errors = [''Input must be an object'']\<rparr>
      else
        (let n = sanitizeString (read_prop input ''name'') MAX_NAME_LENGTH;
             errors1 = (if falsy n \<or> length (the n) = 0
                        then [''Name is required and must be a non-empty string''] else []);
             ic = sanitizeString (read_prop input ''icon'') MAX_ICON_LENGTH;
             errors2 = errors1 @ (if falsy ic \<or> length (the ic) = 0
                                  then [''Icon is required and must be a non-empty string''] else []);
             col = validateColor (read_prop input ''color'');
             errors3 = errors2 @ (if falsy col
                                  then [''Color is required and must be in hex format (#RRGGBB)''] else [])
         in if length errors3 > 0 then \<lparr>valid = False, data = None, errors = errors3\<rparr>
            else \<lparr>valid = True,
                  data = Some \<lparr>nc_name = the n, nc_icon = the ic, nc_color = the col\<rparr>,
                  errors = []\<rparr>))"

record NewTagInput =
  nt_name :: string
  nt_color :: string

definition validateNewTagInput :: "json \<Rightarrow> NewTagInput ValidationResult" where
  "validateNewTagInput input =
     (if not_object input then \<lparr>valid = False, data = None, errors = [''Input must be an object'']\<rparr>
      else
        (let n = sanitizeString (read_prop input ''name'') MAX_NAME_LENGTH;
             errors1 = (if falsy n \<or> length (the n) = 0
                        then [''Name is required and must be a non-empty string''] else []);
             col = validateColor (read_prop input ''color'');
             errors2 = errors1 @ (if falsy col
                                  then [''Color is required and must be in hex format (#RRGGBB)''] else [])
         in if length errors2 > 0 then \<lparr>valid = False, data = None, errors = errors2\<rparr>
            else \<lparr>valid = True, data = Some \<lparr>nt_name = the n, nt_color = the col\<rparr>, errors = []\<rparr>))"

section \<open>The endpoint handlers (app/api)\<close>

text \<open>
  What a handler passes to \<^verbatim>\<open>NextResponse.json\<close>, one constructor for each shape of body
  the handlers build.
\<close>

datatype payload =
    ErrorBody string
  | ErrorDetails string "string list"
  | AlreadyMigrated string bool
  | TodoList "Todo option list"
  | OneTodo Todo
  | CategoryList "Category list"
  | OneCategory Category
  | TagList "Tag list"
  | OneTag Tag
  | Success
  | AllData "Todo option list" "Category list" "Tag list" bool
  | MigrationResult bool bool nat nat nat "string list option"

text \<open>
  A handler answers with a status and a body, or lets an exception escape (the handlers
  that delete and the one that reads a single todo have no \<^verbatim>\<open>try\<close>).
\<close>

datatype outcome = Response nat payload | Uncaught exn

definition unauthorized :: outcome where
  "unauthorized = Response 401 (ErrorBody ''Unauthorized'')"

definition invalid_body :: outcome where
  "invalid_body = Response 400 (ErrorBody ''Invalid request body'')"

text \<open>
  The guard that opens every handler: \<^verbatim>\<open>if (!session?.user?.id) return 401\<close>. The session
  is given by the user id it carries, \<open>None\<close> when there is none; the empty id is falsy.
\<close>

definition with_user ::
  "string option \<Rightarrow> store \<Rightarrow> (string \<Rightarrow> outcome \<times> store) \<Rightarrow> outcome \<times> store" where
  "with_user session st handler =
     (case session of
        None \<Rightarrow> (unauthorized, st)
      | Some uid \<Rightarrow> if uid = [] then (unauthorized, st) else handler uid)"

text \<open>
  In the handlers below the body of the request is \<open>None\<close> when \<^verbatim>\<open>request.json()\<close> throws,
  \<open>now\<close> is the time of the request and \<open>newId\<close> the result of \<^verbatim>\<open>generateId()\<close>, a function
  of \<^verbatim>\<open>@/lib/utils\<close> whose text is not part of the sources at hand.
\<close>

definition todos_GET :: "env \<Rightarrow> string option \<Rightarrow> store \<Rightarrow> outcome \<times> store" where
  "todos_GET e session st =
     with_user session st (\<lambda>uid.
       let (ts, st1) = getUserTodos e st uid in (Response 200 (TodoList ts), st1))"

text \<open>
  \<^verbatim>\<open>POST /api/todos\<close>. Reading \<^verbatim>\<open>body.action\<close> throws when the body is \<^verbatim>\<open>null\<close>, inside the
  \<^verbatim>\<open>try\<close>. The reorder branch checks only that both indices are numbers.
\<close>

definition todos_POST ::
  "env \<Rightarrow> string \<Rightarrow> string \<Rightarrow> string option \<Rightarrow> json option \<Rightarrow> store \<Rightarrow> outcome \<times> store" where
  "todos_POST e now newId session body st =
     with_user session st (\<lambda>uid.
       case body of
         None \<Rightarrow> (invalid_body, st)
       | Some JNull \<Rightarrow> (invalid_body, st)
       | Some b \<Rightarrow>
           if read_prop b ''action'' = Some (JStr ''reorder'') then
             (case (read_prop b ''fromIndex'', read_prop b ''toIndex'') of
                (Some (JNum fromIndex), Some (JNum toIndex)) \<Rightarrow>
                  (let (ts, st1) = reorderUserTodos e st uid fromIndex toIndex
                   in (Response 200 (TodoList ts), st1))
              | _ \<Rightarrow> (Response 400 (ErrorBody ''Invalid reorder parameters''), st))
           else
             (let validationResult = validateNewTodoInput b in
              case (valid validationResult, data validationResult) of
                (True, Some d) \<Rightarrow>
                  (let newTodo = \<lparr>todo_id = newId, title = n_title d, completed = False,
                                  categoryId = n_categoryId d, todo_tags = n_tags d,
                                  createdAt = now, updatedAt = now\<rparr>;
                       (todo, st1) = addUserTodo e st uid newTodo
                   in (Response 201 (OneTodo todo), st1))
              | _ \<Rightarrow> (Response 400 (ErrorDetails ''Validation failed'' (errors validationResult)), st)))"

text \<open>\<^verbatim>\<open>GET /api/todos/[id]\<close>: \<^verbatim>\<open>todos.find((t) => t.id === id)\<close>, outside any \<^verbatim>\<open>try\<close>.\<close>

definition todo_GET :: "env \<Rightarrow> string option \<Rightarrow> string \<Rightarrow> store \<Rightarrow> outcome \<times> store" where
  "todo_GET e session i st =
     with_user session st (\<lambda>uid.
       let (ts, st1) = getUserTodos e st uid in
       case findIndex_id ts i of
         Inl ex \<Rightarrow> (Uncaught ex, st1)
       | Inr None \<Rightarrow> (Response 404 (ErrorBody ''Todo not found''), st1)
       | Inr (Some k) \<Rightarrow>
           (case ts ! k of
              None \<Rightarrow> (Uncaught TypeError, st1)
            | Some todo \<Rightarrow> (Response 200 (OneTodo todo), st1)))"

text \<open>
  \<^verbatim>\<open>PUT /api/todos/[id]\<close>: an exception of \<^verbatim>\<open>updateUserTodo\<close> is caught by the handler.
\<close>

definition todo_PUT ::
  "env \<Rightarrow> string \<Rightarrow> string option \<Rightarrow> string \<Rightarrow> json option \<Rightarrow> store \<Rightarrow> outcome \<times> store" where
  "todo_PUT e now session i body st =
     with_user session st (\<lambda>uid.
       case body of
         None \<Rightarrow> (invalid_body, st)
       | Some b \<Rightarrow>
           (let validationResult = validateUpdateTodoInput b in
            case (valid validationResult, data validationResult) of
              (True, Some d) \<Rightarrow>
                (case updateUserTodo e st uid i d now of
                   (Inl ex, st1) \<Rightarrow> (invalid_body, st1)
                 | (Inr None, st1) \<Rightarrow> (Response 404 (ErrorBody ''Todo not found''), st1)
                 | (Inr (Some updatedTodo), st1) \<Rightarrow> (Response 200 (OneTodo updatedTodo), st1))
            | _ \<Rightarrow> (Response 400 (ErrorDetails ''Validation failed'' (errors validationResult)), st)))"

definition todo_DELETE :: "env \<Rightarrow> string option \<Rightarrow> string \<Rightarrow> store \<Rightarrow> outcome \<times> store" where
  "todo_DELETE e session i st =
     with_user session st (\<lambda>uid.
       case deleteUserTodo e st uid i of
         (Inl ex, st1) \<Rightarrow> (Uncaught ex, st1)
       | (Inr deleted, st1) \<Rightarrow>
           if \<not> deleted then (Response 404 (ErrorBody ''Todo not found''), st1)
           else (Response 200 Success, st1))"

definition data_GET :: "env \<Rightarrow> string option \<Rightarrow> store \<Rightarrow> outcome \<times> store" where
  "data_GET e session st =
     with_user session st (\<lambda>userId.
       let (userData, st1) = getUserData e st userId
       in (Response 200 (AllData (todos userData) (categories userData) (tags userData)
                           (migrated userData)), st1))"

text \<open>
  \<^verbatim>\<open>POST /api/data\<close>, the migration: the check of the flag comes first, before the body is
  read.
\<close>

definition data_POST ::
  "env \<Rightarrow> string \<Rightarrow> string option \<Rightarrow> json option \<Rightarrow> store \<Rightarrow> outcome \<times> store" where
  "data_POST e now session body st =
     with_user session st (\<lambda>userId.
       let (already, st1) = hasUserMigrated e st userId in
       if already then (Response 400 (AlreadyMigrated ''Data already migrated'' True), st1)
       else
         (case body of
            None \<Rightarrow> (Response 400 (ErrorBody ''Invalid JSON data''), st1)
          | Some b \<Rightarrow>
              (let validationResult = validateTodoState (parseDate e) now b in
               case data validationResult of
                 None \<Rightarrow>
                   (Response 400 (ErrorDetails ''Invalid data format'' (errors validationResult)), st1)
               | Some d \<Rightarrow>
                   (let (userData, st2) = importUserData e st1 userId d
                    in (Response 200
                          (MigrationResult True True (length (todos userData))
                             (length (categories userData)) (length (tags userData))
                             (if length (errors validationResult) > 0
                              then Some (errors validationResult) else None)),
                        st2)))))"

definition categories_GET :: "env \<Rightarrow> string option \<Rightarrow> store \<Rightarrow> outcome \<times> store" where
  "categories_GET e session st =
     with_user session st (\<lambda>uid.
       let (cs, st1) = getUserCategories e st uid in (Response 200 (CategoryList cs), st1))"

definition categories_POST ::
  "env \<Rightarrow> string \<Rightarrow> string option \<Rightarrow> json option \<Rightarrow> store \<Rightarrow> outcome \<times> store" where
  "categories_POST e newId session body st =
     with_user session st (\<lambda>uid.
       case body of
         None \<Rightarrow> (invalid_body, st)
       | Some b \<Rightarrow>
           (let validationResult = validateNewCategoryInput b in
            case (valid validationResult, data validationResult) of
              (True, Some d) \<Rightarrow>
                (let newCategory = \<lparr>category_id = newId, category_name = nc_name d,
                                    icon = nc_icon d, category_color = nc_color d\<rparr>;
                     (category, st1) = addUserCategory e st uid newCategory
                 in (Response 201 (OneCategory category), st1))
            | _ \<Rightarrow> (Response 400 (ErrorDetails ''Validation failed'' (errors validationResult)), st)))"

definition category_DELETE :: "env \<Rightarrow> string option \<Rightarrow> string \<Rightarrow> store \<Rightarrow> outcome \<times> store" where
  "category_DELETE e session i st =
     with_user session st (\<lambda>uid.
       case deleteUserCategory e st uid i of
         (Inl ex, st1) \<Rightarrow> (Uncaught ex, st1)
       | (Inr deleted, st1) \<Rightarrow>
           if \<not> deleted then (Response 404 (ErrorBody ''Category not found''), st1)
           else (Response 200 Success, st1))"

definition tags_GET :: "env \<Rightarrow> string option \<Rightarrow> store \<Rightarrow> outcome \<times> store" where
  "tags_GET e session st =
     with_user session st (\<lambda>uid.
       let (ts, st1) = getUserTags e st uid in (Response 200 (TagList ts), st1))"

definition tags_POST ::
  "env \<Rightarrow> string \<Rightarrow> string option \<Rightarrow> json option \<Rightarrow> store \<Rightarrow> outcome \<times> store" where
  "tags_POST e newId session body st =
     with_user session st (\<lambda>uid.
       case body of
         None \<Rightarrow> (invalid_body, st)
       | Some b \<Rightarrow>
           (let validationResult = validateNewTagInput b in
            case (valid validationResult, data validationResult) of
              (True, Some d) \<Rightarrow>
                (let newTag = \<lparr>tag_id = newId, tag_name = nt_name d, tag_color = nt_color d\<rparr>;
                     (tag, st1) = addUserTag e st uid newTag
                 in (Response 201 (OneTag tag), st1))
            | _ \<Rightarrow> (Response 400 (ErrorDetails ''Validation failed'' (errors validationResult)), st)))"

definition tag_DELETE :: "env \<Rightarrow> string option \<Rightarrow> string \<Rightarrow> store \<Rightarrow> outcome \<times> store" where
  "tag_DELETE e session i st =
     with_user session st (\<lambda>uid.
       case deleteUserTag e st uid i of
         (Inl ex, st1) \<Rightarrow> (Uncaught ex, st1)
       | (Inr deleted, st1) \<Rightarrow>
           if \<not> deleted then (Response 404 (ErrorBody ''Tag not found''), st1)
           else (Response 200 Success, st1))"

subsection \<open>Requests served one after another\<close>

text \<open>
  The routes of the application, and a request as the handlers see it: the session, the
  route with its parameter and body, the time and the fresh id. Each handler runs from
  start to end before the next request is served.
\<close>

datatype route =
    GET_data
  | POST_data "json option"
  | GET_todos
  | POST_todos "json option"
  | GET_todo string
  | PUT_todo string "json option"
  | DELETE_todo string
  | GET_categories
  | POST_categories "json option"
  | DELETE_category string
  | GET_tags
  | POST_tags "json option"
  | DELETE_tag string

record request =
  session :: "string option"
  route :: route
  now :: string
  newId :: string

definition handle :: "env \<Rightarrow> request \<Rightarrow> store \<Rightarrow> outcome \<times> store" where
  "handle e r st =
     (case route r of
        GET_data \<Rightarrow> data_GET e (session r) st
      | POST_data body \<Rightarrow> data_POST e (now r) (session r) body st
      | GET_todos \<Rightarrow> todos_GET e (session r) st
      | POST_todos body \<Rightarrow> todos_POST e (now r) (newId r) (session r) body st
      | GET_todo i \<Rightarrow> todo_GET e (session r) i st
      | PUT_todo i body \<Rightarrow> todo_PUT e (now r) (session r) i body st
      | DELETE_todo i \<Rightarrow> todo_DELETE e (session r) i st
      | GET_categories \<Rightarrow> categories_GET e (session r) st
      | POST_categories body \<Rightarrow> categories_POST e (newId r) (session r) body st
      | DELETE_category i \<Rightarrow> category_DELETE e (session r) i st
      | GET_tags \<Rightarrow> tags_GET e (session r) st
      | POST_tags body \<Rightarrow> tags_POST e (newId r) (session r) body st
      | DELETE_tag i \<Rightarrow> tag_DELETE e (session r) i st)"

fun serve :: "env \<Rightarrow> store \<Rightarrow> request list \<Rightarrow> store" where
  "serve e st [] = st"
| "serve e st (r # rs) = serve e (snd (handle e r st)) rs"

section \<open>Notions the properties are stated with\<close>

text \<open>
  The data of a user as the store presents it: what \<^verbatim>\<open>getUserData\<close> returns, which for a
  user not yet in the map is the default data.
\<close>

definition user_data :: "env \<Rightarrow> store \<Rightarrow> string \<Rightarrow> UserData" where
  "user_data e st userId = fst (getUserData e st userId)"

text \<open>A state of the declared type \<^verbatim>\<open>Todo[]\<close>: every slot of the todo array holds a Todo.\<close>

definition well_typed :: "UserData \<Rightarrow> bool" where
  "well_typed u = list_all (\<lambda>s. s \<noteq> None) (todos u)"

text \<open>The callback of the cascade in \<^verbatim>\<open>deleteUserCategory\<close>.\<close>

definition clear_category :: "string \<Rightarrow> Todo \<Rightarrow> Todo" where
  "clear_category cid todo =
     (if categoryId todo = Some cid then todo\<lparr>categoryId := None\<rparr> else todo)"

text \<open>
  Notions for the bulk validation: a result that the loops of \<^verbatim>\<open>validateTodoState\<close> accept
  (\<^verbatim>\<open>result.valid && result.data\<close>), the message they push otherwise, the items of one
  collection that a loop visits (none when the property is not an array; at most the cap),
  and the items accepted, in order.
\<close>

definition accepted :: "'a ValidationResult \<Rightarrow> bool" where
  "accepted result = (valid result \<and> data result \<noteq> None)"

definition warning :: "string \<Rightarrow> nat \<Rightarrow> 'a ValidationResult \<Rightarrow> string" where
  "warning label i result = label @ '' at index '' @ show_nat i @ '': '' @ join_errors (errors result)"

definition items_of :: "json \<Rightarrow> string \<Rightarrow> nat \<Rightarrow> json list" where
  "items_of state key cap = (case read_prop state key of Some (JArr xs) \<Rightarrow> take cap xs | _ \<Rightarrow> [])"

definition validated :: "(json \<Rightarrow> 'a ValidationResult) \<Rightarrow> json list \<Rightarrow> 'a list" where
  "validated validate items = map (\<lambda>x. the (data (validate x))) (filter (\<lambda>x. accepted (validate x)) items)"

text \<open>
  Referential integrity of a user's data: the category of every todo, when it has one, is
  the id of one of the user's categories, and every tag of every todo is the id of one of
  the user's tags.
\<close>

definition resolves :: "Category list \<Rightarrow> Tag list \<Rightarrow> Todo option \<Rightarrow> bool" where
  "resolves cs gs slot =
     (case slot of
        None \<Rightarrow> True
      | Some t \<Rightarrow>
          (case categoryId t of None \<Rightarrow> True | Some c \<Rightarrow> c \<in> category_id ` set cs) \<and>
          list_all (\<lambda>g. g \<in> tag_id ` set gs) (todo_tags t))"

definition referential_integrity :: "UserData \<Rightarrow> bool" where
  "referential_integrity u = list_all (resolves (categories u) (tags u)) (todos u)"

text \<open>Somewhere in the text the pattern matches.\<close>

fun has_match :: "(string \<Rightarrow> nat option) \<Rightarrow> string \<Rightarrow> bool" where
  "has_match m [] = (m [] \<noteq> None)"
| "has_match m (c # cs) = (m (c # cs) \<noteq> None \<or> has_match m cs)"

section \<open>Concrete data for the instances\<close>

definition example_env :: env where
  "example_env =
     \<lparr>DEFAULT_CATEGORIES =
        [\<lparr>category_id = ''work'', category_name = ''Work'', icon = ''briefcase'',
          category_color = ''#6366f1''\<rparr>,
         \<lparr>category_id = ''personal'', category_name = ''Personal'', icon = ''home'',
          category_color = ''#10b981''\<rparr>],
      DEFAULT_TAGS =
        [\<lparr>tag_id = ''urgent'', tag_name = ''Urgent'', tag_color = ''#ef4444''\<rparr>,
         \<lparr>tag_id = ''later'', tag_name = ''Later'', tag_color = ''#f59e0b''\<rparr>],
      parseDate = (\<lambda>s. None)\<rparr>"

definition example_todo :: "string \<Rightarrow> string option \<Rightarrow> string list \<Rightarrow> Todo" where
  "example_todo i c ts =
     \<lparr>todo_id = i, title = ''task'', completed = False, categoryId = c, todo_tags = ts,
      createdAt = ''2024-01-01T00:00:00.000Z'', updatedAt = ''2024-01-01T00:00:00.000Z''\<rparr>"

definition example_user :: UserData where
  "example_user =
     \<lparr>todos = [Some (example_todo ''a'' (Some ''work'') [''urgent'']),
               Some (example_todo ''b'' None [''urgent'', ''later'']),
               Some (example_todo ''c'' (Some ''work'') [])],
      categories = DEFAULT_CATEGORIES example_env,
      tags = DEFAULT_TAGS example_env,
      migrated = False\<rparr>"

definition example_store :: store where
  "example_store = Map.empty(''u1'' \<mapsto> example_user)"


text \<open>
  A store in which a todo carries a category id that no category has: user \<open>u2\<close> is new
  and gets one todo filed under \<open>ghost\<close>.
\<close>

definition dangling_store :: store where
  "dangling_store =
     snd (addUserTodo example_env Map.empty ''u2'' (example_todo ''d'' (Some ''ghost'') []))"

text \<open>A reorder request whose \<^verbatim>\<open>fromIndex\<close> lies beyond a list of three.\<close>

definition reorder_body :: json where
  "reorder_body = JObj [(''action'', JStr ''reorder''), (''fromIndex'', JNum 5), (''toIndex'', JNum 1)]"



text \<open>
  A state to import: three todos, the second with a blank title, the first with a tag that
  is not among the tags, the third with a category that is not among the categories.
\<close>

definition example_state :: json where
  "example_state =
     JObj [(''todos'', JArr
              [JObj [(''id'', JStr ''a''), (''title'', JStr ''first''), (''categoryId'', JStr ''work''),
                     (''tags'', JArr [JStr ''urgent'', JStr ''nope''])],
               JObj [(''id'', JStr ''b''), (''title'', JStr ''   '')],
               JObj [(''id'', JStr ''c''), (''title'', JStr ''third''), (''categoryId'', JStr ''ghost''),
                     (''createdAt'', JStr ''2024-01-01T00:00:00.000Z'')]]),
           (''categories'', JArr
              [JObj [(''id'', JStr ''work''), (''name'', JStr ''Work''), (''icon'', JStr ''briefcase''),
                     (''color'', JStr ''#6366f1'')]]),
           (''tags'', JArr
              [JObj [(''id'', JStr ''urgent''), (''name'', JStr ''Urgent''), (''color'', JStr ''#ef4444'')]])]"

text \<open>
  Requests: a migration of the state above by user \<open>u1\<close>, some later requests of the same
  user, and the bodies of a creation and of an update that name a category that does not
  exist.
\<close>

definition migrate_request :: request where
  "migrate_request =
     \<lparr>session = Some ''u1'', route = POST_data (Some example_state),
      now = ''2024-04-04T00:00:00.000Z'', newId = ''n1''\<rparr>"

definition later_requests :: "request list" where
  "later_requests =
     [\<lparr>session = Some ''u1'', route = POST_todos (Some reorder_body),
       now = ''2024-04-05T00:00:00.000Z'', newId = ''n2''\<rparr>,
      \<lparr>session = Some ''u1'', route = DELETE_tag ''urgent'',
       now = ''2024-04-06T00:00:00.000Z'', newId = ''n3''\<rparr>,
      \<lparr>session = Some ''u1'', route = POST_data (Some (JObj [])),
       now = ''2024-04-07T00:00:00.000Z'', newId = ''n4''\<rparr>]"

definition ghost_body :: json where
  "ghost_body =
     JObj [(''title'', JStr ''buy milk''), (''categoryId'', JStr ''ghost''),
           (''tags'', JArr [JStr ''nope''])]"

definition ghost_update :: json where
  "ghost_update = JObj [(''categoryId'', JStr ''ghost'')]"

text \<open>An update whose category and tag are ids of the default collections.\<close>

definition resolving_updates :: TodoUpdates where
  "resolving_updates =
     \<lparr>u_id = None, u_title = None, u_completed = None, u_categoryId = Some (Some ''personal''),
      u_tags = Some [''later''], u_createdAt = None, u_updatedAt = None\<rparr>"

text \<open>Store operations called directly: an import, and an update that clears the flag.\<close>

definition imported_store :: store where
  "imported_store =
     snd (importUserData example_env example_store ''u1''
            \<lparr>s_todos = [example_todo ''z'' None []], s_categories = [], s_tags = []\<rparr>)"

definition reset_flag :: UserDataUpdates where
  "reset_flag = \<lparr>d_todos = None, d_categories = None, d_tags = None, d_migrated = Some False\<rparr>"

section \<open>Reading the store\<close>

lemma getUserData_view:
  "getUserData e st userId = (user_data e st userId, st(userId \<mapsto> user_data e st userId))"
  by (auto simp: getUserData_def user_data_def split: option.splits)

lemma user_data_upd [simp]: "user_data e (st(userId \<mapsto> u)) userId = u"
  by (simp add: user_data_def getUserData_def)

lemma user_data_example [simp]: "user_data example_env example_store ''u1'' = example_user"
  by (simp add: user_data_def getUserData_def example_store_def)

lemma well_typed_example [simp]: "well_typed example_user"
  by (simp add: well_typed_def example_user_def)

lemma default_categories_example:
  "DEFAULT_CATEGORIES example_env =
     [\<lparr>category_id = ''work'', category_name = ''Work'', icon = ''briefcase'',
       category_color = ''#6366f1''\<rparr>,
      \<lparr>category_id = ''personal'', category_name = ''Personal'', icon = ''home'',
       category_color = ''#10b981''\<rparr>]"
  by (simp add: example_env_def)

lemma default_category_ids [simp]:
  "category_id ` set (DEFAULT_CATEGORIES example_env) = {''work'', ''personal''}"
  by (simp add: example_env_def)

lemma default_tag_ids [simp]:
  "tag_id ` set (DEFAULT_TAGS example_env) = {''urgent'', ''later''}"
  by (simp add: example_env_def)


lemma dangling_user:
  "user_data example_env dangling_store ''u2'' =
     \<lparr>todos = [Some (example_todo ''d'' (Some ''ghost'') [])],
      categories = DEFAULT_CATEGORIES example_env, tags = DEFAULT_TAGS example_env,
      migrated = False\<rparr>"
  by (simp add: dangling_store_def addUserTodo_def getUserData_def getDefaultUserData_def
        user_data_def)

lemma deref_all_defined:
  "list_all (\<lambda>s. s \<noteq> None) xs \<Longrightarrow> deref_all xs = Inr (map the xs)"
  by (induction xs rule: deref_all.induct) auto

lemma filter_shorter_iff:
  "length (filter P xs) < length xs \<longleftrightarrow> (\<exists>x \<in> set xs. \<not> P x)"
proof (induction xs)
  case Nil
  then show ?case by simp
next
  case (Cons x xs)
  have "length (filter P xs) \<le> length xs" by simp
  with Cons show ?case by auto
qed


lemma importUserData_calc:
  "importUserData e st userId d =
     ((user_data e st userId)\<lparr>todos := map Some (s_todos d), categories := s_categories d,
                               tags := s_tags d, migrated := True\<rparr>,
      st(userId \<mapsto> (user_data e st userId)\<lparr>todos := map Some (s_todos d),
                               categories := s_categories d, tags := s_tags d, migrated := True\<rparr>))"
  by (simp add: importUserData_def getUserData_view Let_def)

lemma data_POST_calc:
  assumes "uid \<noteq> []"
  shows "data_POST e n (Some uid) body st =
    (if migrated (user_data e st uid)
     then (Response 400 (AlreadyMigrated ''Data already migrated'' True), st(uid \<mapsto> user_data e st uid))
     else
       (case body of
          None \<Rightarrow> (Response 400 (ErrorBody ''Invalid JSON data''), st(uid \<mapsto> user_data e st uid))
        | Some b \<Rightarrow>
            (case data (validateTodoState (parseDate e) n b) of
               None \<Rightarrow> (Response 400 (ErrorDetails ''Invalid data format''
                                        (errors (validateTodoState (parseDate e) n b))),
                        st(uid \<mapsto> user_data e st uid))
             | Some d \<Rightarrow>
                 (Response 200
                    (MigrationResult True True (length (s_todos d)) (length (s_categories d))
                       (length (s_tags d))
                       (if length (errors (validateTodoState (parseDate e) n b)) > 0
                        then Some (errors (validateTodoState (parseDate e) n b)) else None)),
                  st(uid \<mapsto> (user_data e st uid)\<lparr>todos := map Some (s_todos d),
                        categories := s_categories d, tags := s_tags d, migrated := True\<rparr>)))))"
  using assms
  by (simp add: data_POST_def with_user_def hasUserMigrated_def getUserData_view
        importUserData_calc Let_def split: option.splits)

section \<open>Reordering\<close>

lemma reorder_calc:
  "reorderUserTodos e st userId fromIndex toIndex =
     (let xs = todos (user_data e st userId);
          ys = snd (array_splice xs fromIndex 1 []);
          removed = (case fst (array_splice xs fromIndex 1 []) of [] \<Rightarrow> None | r # _ \<Rightarrow> r);
          zs = snd (array_splice ys toIndex 0 [removed])
      in (zs, st(userId \<mapsto> (user_data e st userId)\<lparr>todos := zs\<rparr>)))"
  unfolding reorderUserTodos_def getUserData_view
  by (simp add: Let_def split_beta)

lemma splice_first_of_three: "array_splice [A, B, C] 0 (Suc 0) [] = ([A], [B, C])"
  by (simp add: array_splice_def clamp_index_def)

lemma splice_append_to_two: "array_splice [B, C] 2 0 [A] = ([], [B, C, A])"
  by (simp add: array_splice_def clamp_index_def)

lemma splice_beyond:
  "int (length xs) \<le> fromIndex \<Longrightarrow> array_splice xs fromIndex (Suc 0) [] = ([], xs)"
  by (simp add: array_splice_def clamp_index_def)

lemma splice_insert:
  "array_splice xs toIndex 0 [x] =
     ([], take (clamp_index toIndex (length xs)) xs @ [x] @ drop (clamp_index toIndex (length xs)) xs)"
  by (simp add: array_splice_def Let_def)

lemma reorder_beyond:
  assumes "int (length (todos (user_data e st userId))) \<le> fromIndex"
  shows "reorderUserTodos e st userId fromIndex toIndex =
          (let xs = todos (user_data e st userId); k = clamp_index toIndex (length xs);
               zs = take k xs @ [None] @ drop k xs
           in (zs, st(userId \<mapsto> (user_data e st userId)\<lparr>todos := zs\<rparr>)))"
  by (simp add: reorder_calc splice_beyond [OF assms] splice_insert Let_def)

text \<open>
  C8. For every user whose todo sequence is the three-item list \<open>[A, B, C]\<close>,
  \<^verbatim>\<open>reorderUserTodos\<close> with \<^verbatim>\<open>fromIndex = 0\<close> and \<^verbatim>\<open>toIndex = 2\<close> returns the list
  \<open>[B, C, A]\<close>, and that list is the user's todo sequence in the store afterwards.
\<close>

theorem reorder_three_front_to_back:
  assumes "todos (user_data e st userId) = [Some A, Some B, Some C]"
  shows "fst (reorderUserTodos e st userId 0 2) = [Some B, Some C, Some A] \<and>
         todos (user_data e (snd (reorderUserTodos e st userId 0 2)) userId) =
           [Some B, Some C, Some A]"
  by (simp add: reorder_calc assms splice_first_of_three splice_append_to_two Let_def)

theorem reorder_three_front_to_back_witness:
  "todos (user_data example_env example_store ''u1'') =
     [Some (example_todo ''a'' (Some ''work'') [''urgent'']),
      Some (example_todo ''b'' None [''urgent'', ''later'']),
      Some (example_todo ''c'' (Some ''work'') [])] \<and>
   fst (reorderUserTodos example_env example_store ''u1'' 0 2) =
     [Some (example_todo ''b'' None [''urgent'', ''later'']),
      Some (example_todo ''c'' (Some ''work'') []),
      Some (example_todo ''a'' (Some ''work'') [''urgent''])] \<and>
   todos (user_data example_env (snd (reorderUserTodos example_env example_store ''u1'' 0 2)) ''u1'') =
     [Some (example_todo ''b'' None [''urgent'', ''later'']),
      Some (example_todo ''c'' (Some ''work'') []),
      Some (example_todo ''a'' (Some ''work'') [''urgent''])]"
proof -
  have h: "todos (user_data example_env example_store ''u1'') =
     [Some (example_todo ''a'' (Some ''work'') [''urgent'']),
      Some (example_todo ''b'' None [''urgent'', ''later'']),
      Some (example_todo ''c'' (Some ''work'') [])]"
    by (simp add: example_user_def)
  from h reorder_three_front_to_back [OF h] show ?thesis by (rule conjI)
qed

lemma todos_POST_reorder:
  assumes "userId \<noteq> []"
      and "read_prop body ''action'' = Some (JStr ''reorder'')"
      and "read_prop body ''fromIndex'' = Some (JNum fromIndex)"
      and "read_prop body ''toIndex'' = Some (JNum toIndex)"
  shows "todos_POST e now' newId' (Some userId) (Some body) st =
           (Response 200 (TodoList (fst (reorderUserTodos e st userId fromIndex toIndex))),
            snd (reorderUserTodos e st userId fromIndex toIndex))"
proof -
  obtain kvs where b: "body = JObj kvs"
    using assms(2) by (cases body) auto
  show ?thesis
    using assms unfolding todos_POST_def with_user_def b
    by (simp add: split_beta)
qed

lemma clamp_index_le: "clamp_index i n \<le> n"
  unfolding clamp_index_def by (cases "i < 0") auto

text \<open>
  C10. For every user whose todo sequence has length \<open>n\<close>, \<^verbatim>\<open>reorderUserTodos\<close> with
  \<^verbatim>\<open>fromIndex \<ge> n\<close> removes nothing and inserts \<^verbatim>\<open>undefined\<close>: the list returned is the
  original one with an \<^verbatim>\<open>undefined\<close> slot put in at the position that \<^verbatim>\<open>toIndex\<close> is clamped
  to, it has length \<open>n + 1\<close>, differs from the original, and is the list stored; no error is
  reported. The reorder branch of \<^verbatim>\<open>POST /api/todos\<close> passes any two numbers on unchecked
  and answers 200 with that list.
\<close>

theorem reorder_beyond_length:
  "(int (length (todos (user_data e st userId))) \<le> fromIndex \<longrightarrow>
      fst (reorderUserTodos e st userId fromIndex toIndex) =
        take (clamp_index toIndex (length (todos (user_data e st userId)))) (todos (user_data e st userId)) @
        [None] @
        drop (clamp_index toIndex (length (todos (user_data e st userId)))) (todos (user_data e st userId))
      \<and> clamp_index toIndex (length (todos (user_data e st userId))) \<le> length (todos (user_data e st userId))
      \<and> fst (reorderUserTodos e st userId fromIndex toIndex) !
            clamp_index toIndex (length (todos (user_data e st userId))) = None
      \<and> length (fst (reorderUserTodos e st userId fromIndex toIndex)) =
            length (todos (user_data e st userId)) + 1
      \<and> fst (reorderUserTodos e st userId fromIndex toIndex) \<noteq> todos (user_data e st userId)
      \<and> todos (user_data e (snd (reorderUserTodos e st userId fromIndex toIndex)) userId) =
            fst (reorderUserTodos e st userId fromIndex toIndex))
   \<and> (userId \<noteq> [] \<and> read_prop body ''action'' = Some (JStr ''reorder'') \<and>
        read_prop body ''fromIndex'' = Some (JNum a) \<and> read_prop body ''toIndex'' = Some (JNum b) \<longrightarrow>
        todos_POST e now' newId' (Some userId) (Some body) st =
          (Response 200 (TodoList (fst (reorderUserTodos e st userId a b))),
           snd (reorderUserTodos e st userId a b)))"
proof (intro conjI impI)
  let ?xs = "todos (user_data e st userId)"
  let ?k = "clamp_index toIndex (length ?xs)"
  assume beyond: "int (length ?xs) \<le> fromIndex"
  note calc = reorder_beyond [OF beyond, of toIndex]
  show k: "?k \<le> length ?xs"
    by (rule clamp_index_le)
  show r: "fst (reorderUserTodos e st userId fromIndex toIndex) = take ?k ?xs @ [None] @ drop ?k ?xs"
    by (simp add: calc Let_def)
  show "fst (reorderUserTodos e st userId fromIndex toIndex) ! ?k = None"
    using k by (simp add: r nth_append)
  show len: "length (fst (reorderUserTodos e st userId fromIndex toIndex)) = length ?xs + 1"
    using k by (simp add: r)
  show "fst (reorderUserTodos e st userId fromIndex toIndex) \<noteq> ?xs"
    using len by auto
  show "todos (user_data e (snd (reorderUserTodos e st userId fromIndex toIndex)) userId) =
             fst (reorderUserTodos e st userId fromIndex toIndex)"
    by (simp add: calc Let_def)
next
  assume "userId \<noteq> [] \<and> read_prop body ''action'' = Some (JStr ''reorder'') \<and>
        read_prop body ''fromIndex'' = Some (JNum a) \<and> read_prop body ''toIndex'' = Some (JNum b)"
  then show "todos_POST e now' newId' (Some userId) (Some body) st =
          (Response 200 (TodoList (fst (reorderUserTodos e st userId a b))),
           snd (reorderUserTodos e st userId a b))"
    by (simp add: todos_POST_reorder)
qed

theorem reorder_beyond_length_witness:
  "int (length (todos (user_data example_env example_store ''u1''))) \<le> 5 \<and>
   ''u1'' \<noteq> [] \<and>
   read_prop reorder_body ''action'' = Some (JStr ''reorder'') \<and>
   read_prop reorder_body ''fromIndex'' = Some (JNum 5) \<and>
   read_prop reorder_body ''toIndex'' = Some (JNum 1) \<and>
   fst (reorderUserTodos example_env example_store ''u1'' 5 1) =
     [Some (example_todo ''a'' (Some ''work'') [''urgent'']),
      None,
      Some (example_todo ''b'' None [''urgent'', ''later'']),
      Some (example_todo ''c'' (Some ''work'') [])] \<and>
   fst (todos_POST example_env ''2024-03-03T00:00:00.000Z'' ''n1'' (Some ''u1'') (Some reorder_body) example_store) =
     Response 200 (TodoList
       [Some (example_todo ''a'' (Some ''work'') [''urgent'']),
        None,
        Some (example_todo ''b'' None [''urgent'', ''later'']),
        Some (example_todo ''c'' (Some ''work'') [])])"
proof -
  have h1: "int (length (todos (user_data example_env example_store ''u1''))) \<le> 5"
    by (simp add: example_user_def)
  have h2: "''u1'' \<noteq> []" by simp
  have h3: "read_prop reorder_body ''action'' = Some (JStr ''reorder'')"
    by (simp add: reorder_body_def)
  have h4: "read_prop reorder_body ''fromIndex'' = Some (JNum 5)"
    by (simp add: reorder_body_def)
  have h5: "read_prop reorder_body ''toIndex'' = Some (JNum 1)"
    by (simp add: reorder_body_def)
  note T = reorder_beyond_length [of example_env example_store "''u1''" 5 1 reorder_body 5 1
             "''2024-03-03T00:00:00.000Z''" "''n1''"]
  have k: "clamp_index 1 (length (todos (user_data example_env example_store ''u1''))) = 1"
    by (simp add: example_user_def clamp_index_def)
  from T h1 have "fst (reorderUserTodos example_env example_store ''u1'' 5 1) =
        take (clamp_index 1 (length (todos (user_data example_env example_store ''u1''))))
          (todos (user_data example_env example_store ''u1'')) @ [None] @
        drop (clamp_index 1 (length (todos (user_data example_env example_store ''u1''))))
          (todos (user_data example_env example_store ''u1''))"
    by blast
  then have r: "fst (reorderUserTodos example_env example_store ''u1'' 5 1) =
     [Some (example_todo ''a'' (Some ''work'') [''urgent'']),
      None,
      Some (example_todo ''b'' None [''urgent'', ''later'']),
      Some (example_todo ''c'' (Some ''work'') [])]"
    unfolding k by (simp add: example_user_def)
  from T h2 h3 h4 h5
  have "todos_POST example_env ''2024-03-03T00:00:00.000Z'' ''n1'' (Some ''u1'') (Some reorder_body)
          example_store =
          (Response 200 (TodoList (fst (reorderUserTodos example_env example_store ''u1'' 5 1))),
           snd (reorderUserTodos example_env example_store ''u1'' 5 1))"
    by blast
  then have p: "fst (todos_POST example_env ''2024-03-03T00:00:00.000Z'' ''n1'' (Some ''u1'')
                       (Some reorder_body) example_store) =
     Response 200 (TodoList
       [Some (example_todo ''a'' (Some ''work'') [''urgent'']),
        None,
        Some (example_todo ''b'' None [''urgent'', ''later'']),
        Some (example_todo ''c'' (Some ''work'') [])])"
    by (simp add: r)
  from h1 h2 h3 h4 h5 r p show ?thesis by - (intro conjI; assumption)
qed

section \<open>Updating a todo\<close>




lemma findIndex_id_Some:
  "findIndex_id xs todoId = Inr (Some k) \<Longrightarrow> k < length xs \<and> (\<exists>old. xs ! k = Some old)"
proof (induction xs todoId arbitrary: k rule: findIndex_id.induct)
  case (1 todoId)
  then show ?case by simp
next
  case (2 ts todoId)
  then show ?case by simp
next
  case (3 t ts todoId)
  show ?case
  proof (cases "todo_id t = todoId")
    case True
    with 3 show ?thesis by simp
  next
    case False
    with 3(2) obtain k' where k: "findIndex_id ts todoId = Inr (Some k')" "k = Suc k'"
      by (auto split: sum.splits option.splits)
    from 3(1) [OF False k(1)] k(2) show ?thesis by simp
  qed
qed

lemma updateUserTodo_throws:
  assumes "findIndex_id (todos (user_data e st userId)) todoId = Inl ex"
  shows "updateUserTodo e st userId todoId updates now' =
           (Inl ex, st(userId \<mapsto> user_data e st userId))"
  unfolding updateUserTodo_def getUserData_view by (simp add: assms)

lemma updateUserTodo_missing:
  assumes "findIndex_id (todos (user_data e st userId)) todoId = Inr None"
  shows "updateUserTodo e st userId todoId updates now' =
           (Inr None, st(userId \<mapsto> user_data e st userId))"
  unfolding updateUserTodo_def getUserData_view by (simp add: assms)

lemma updateUserTodo_found:
  assumes "findIndex_id (todos (user_data e st userId)) todoId = Inr (Some i)"
      and "todos (user_data e st userId) ! i = Some old"
  shows "updateUserTodo e st userId todoId updates now' =
           (Inr (Some (merge_todo old updates now')),
            st(userId \<mapsto> (user_data e st userId)
                 \<lparr>todos := (todos (user_data e st userId))[i := Some (merge_todo old updates now')]\<rparr>))"
  unfolding updateUserTodo_def getUserData_view by (simp add: assms Let_def)

lemma merge_todo_fields:
  "todo_id (merge_todo old updates now') = (case u_id updates of None \<Rightarrow> todo_id old | Some v \<Rightarrow> v)"
  "title (merge_todo old updates now') = (case u_title updates of None \<Rightarrow> title old | Some v \<Rightarrow> v)"
  "completed (merge_todo old updates now') = (case u_completed updates of None \<Rightarrow> completed old | Some v \<Rightarrow> v)"
  "categoryId (merge_todo old updates now') = (case u_categoryId updates of None \<Rightarrow> categoryId old | Some v \<Rightarrow> v)"
  "todo_tags (merge_todo old updates now') = (case u_tags updates of None \<Rightarrow> todo_tags old | Some v \<Rightarrow> v)"
  "createdAt (merge_todo old updates now') = (case u_createdAt updates of None \<Rightarrow> createdAt old | Some v \<Rightarrow> v)"
  "updatedAt (merge_todo old updates now') = now'"
  by (simp_all add: merge_todo_def)







section \<open>Deleting a category\<close>

lemma deleteUserCategory_calc:
  assumes "well_typed (user_data e st userId)"
  shows "deleteUserCategory e st userId cid =
          (Inr (length (filter (\<lambda>c. category_id c \<noteq> cid) (categories (user_data e st userId)))
                 < length (categories (user_data e st userId))),
           st(userId \<mapsto> (user_data e st userId)
               \<lparr>categories := filter (\<lambda>c. category_id c \<noteq> cid) (categories (user_data e st userId)),
                todos := map (\<lambda>s. Some (clear_category cid (the s))) (todos (user_data e st userId))\<rparr>))"
  using deref_all_defined [OF assms [unfolded well_typed_def]]
  unfolding deleteUserCategory_def getUserData_view
  by (simp add: Let_def clear_category_def comp_def)

lemma clear_category_count:
  "list_all (\<lambda>s. s \<noteq> None) xs \<Longrightarrow>
   length (filter (\<lambda>s. map_option categoryId s = Some None)
             (map (\<lambda>s. Some (clear_category cid (the s))) xs)) =
   length (filter (\<lambda>s. map_option categoryId s = Some None) xs) +
   length (filter (\<lambda>s. map_option categoryId s = Some (Some cid)) xs)"
  by (induction xs) (auto simp: clear_category_def)

lemma clear_category_unreferenced:
  "list_all (\<lambda>s. s \<noteq> None) xs \<Longrightarrow> \<forall>t. Some t \<in> set xs \<longrightarrow> categoryId t \<noteq> Some cid \<Longrightarrow>
   map (\<lambda>s. Some (clear_category cid (the s))) xs = xs"
  by (induction xs) (auto simp: clear_category_def)

lemma filter_absent_id:
  "cid \<notin> category_id ` set cs \<Longrightarrow> filter (\<lambda>c. category_id c \<noteq> cid) cs = cs"
  by (induction cs) auto

text \<open>
  C6, as amended. For every user whose todo array holds only Todos: after
  \<^verbatim>\<open>deleteUserCategory(C)\<close> no Category with id \<open>C\<close> remains, every Todo that had
  \<^verbatim>\<open>categoryId = C\<close> is the same Todo with \<^verbatim>\<open>categoryId = null\<close>, every other Todo is as it
  was (so the number of Todos without a category grows by the number \<open>N\<close> of Todos that had
  \<open>C\<close>), and the call returns true when a Category with id \<open>C\<close> existed. For an id absent
  from the category collection the call returns false and leaves the categories, the tags
  and the flag as they were; the user's state as a whole is unchanged when, in addition,
  no Todo carries that id as its \<^verbatim>\<open>categoryId\<close>.
\<close>

theorem deleteUserCategory_cascade:
  assumes "well_typed (user_data e st userId)"
  shows "(cid \<in> category_id ` set (categories (user_data e st userId)) \<longrightarrow>
            fst (deleteUserCategory e st userId cid) = Inr True)
       \<and> cid \<notin> category_id ` set (categories (user_data e (snd (deleteUserCategory e st userId cid)) userId))
       \<and> length (todos (user_data e (snd (deleteUserCategory e st userId cid)) userId)) =
           length (todos (user_data e st userId))
       \<and> (\<forall>i<length (todos (user_data e st userId)). \<forall>t.
             todos (user_data e st userId) ! i = Some t \<longrightarrow>
             todos (user_data e (snd (deleteUserCategory e st userId cid)) userId) ! i =
               Some (if categoryId t = Some cid then t\<lparr>categoryId := None\<rparr> else t))
       \<and> length (filter (\<lambda>s. map_option categoryId s = Some None)
                   (todos (user_data e (snd (deleteUserCategory e st userId cid)) userId))) =
           length (filter (\<lambda>s. map_option categoryId s = Some None) (todos (user_data e st userId))) +
           length (filter (\<lambda>s. map_option categoryId s = Some (Some cid)) (todos (user_data e st userId)))
       \<and> (cid \<notin> category_id ` set (categories (user_data e st userId)) \<longrightarrow>
            fst (deleteUserCategory e st userId cid) = Inr False \<and>
            categories (user_data e (snd (deleteUserCategory e st userId cid)) userId) =
              categories (user_data e st userId) \<and>
            tags (user_data e (snd (deleteUserCategory e st userId cid)) userId) =
              tags (user_data e st userId) \<and>
            migrated (user_data e (snd (deleteUserCategory e st userId cid)) userId) =
              migrated (user_data e st userId) \<and>
            ((\<forall>t. Some t \<in> set (todos (user_data e st userId)) \<longrightarrow> categoryId t \<noteq> Some cid) \<longrightarrow>
               user_data e (snd (deleteUserCategory e st userId cid)) userId = user_data e st userId))"
proof -
  let ?u = "user_data e st userId"
  note calc = deleteUserCategory_calc [OF assms, of cid]
  have wt: "list_all (\<lambda>s. s \<noteq> None) (todos ?u)"
    using assms by (simp add: well_typed_def)
  have a: "cid \<in> category_id ` set (categories ?u) \<longrightarrow> fst (deleteUserCategory e st userId cid) = Inr True"
    by (auto simp: calc filter_shorter_iff)
  have b: "cid \<notin> category_id ` set (categories (user_data e (snd (deleteUserCategory e st userId cid)) userId))"
    by (auto simp: calc)
  have c: "length (todos (user_data e (snd (deleteUserCategory e st userId cid)) userId)) = length (todos ?u)"
    by (simp add: calc)
  have d: "\<forall>i<length (todos ?u). \<forall>t. todos ?u ! i = Some t \<longrightarrow>
             todos (user_data e (snd (deleteUserCategory e st userId cid)) userId) ! i =
               Some (if categoryId t = Some cid then t\<lparr>categoryId := None\<rparr> else t)"
    by (simp add: calc clear_category_def)
  have f: "length (filter (\<lambda>s. map_option categoryId s = Some None)
                   (todos (user_data e (snd (deleteUserCategory e st userId cid)) userId))) =
           length (filter (\<lambda>s. map_option categoryId s = Some None) (todos ?u)) +
           length (filter (\<lambda>s. map_option categoryId s = Some (Some cid)) (todos ?u))"
    using clear_category_count [OF wt, of cid] by (simp add: calc)
  have g: "cid \<notin> category_id ` set (categories ?u) \<longrightarrow>
            fst (deleteUserCategory e st userId cid) = Inr False \<and>
            categories (user_data e (snd (deleteUserCategory e st userId cid)) userId) = categories ?u \<and>
            tags (user_data e (snd (deleteUserCategory e st userId cid)) userId) = tags ?u \<and>
            migrated (user_data e (snd (deleteUserCategory e st userId cid)) userId) = migrated ?u \<and>
            ((\<forall>t. Some t \<in> set (todos ?u) \<longrightarrow> categoryId t \<noteq> Some cid) \<longrightarrow>
               user_data e (snd (deleteUserCategory e st userId cid)) userId = ?u)"
  proof (intro impI conjI)
    assume n: "cid \<notin> category_id ` set (categories ?u)"
    show "fst (deleteUserCategory e st userId cid) = Inr False"
      by (simp add: calc filter_absent_id [OF n])
    show "categories (user_data e (snd (deleteUserCategory e st userId cid)) userId) = categories ?u"
      by (simp add: calc filter_absent_id [OF n])
    show "tags (user_data e (snd (deleteUserCategory e st userId cid)) userId) = tags ?u"
      by (simp add: calc)
    show "migrated (user_data e (snd (deleteUserCategory e st userId cid)) userId) = migrated ?u"
      by (simp add: calc)
    assume r: "\<forall>t. Some t \<in> set (todos ?u) \<longrightarrow> categoryId t \<noteq> Some cid"
    show "user_data e (snd (deleteUserCategory e st userId cid)) userId = ?u"
      by (simp add: calc filter_absent_id [OF n] clear_category_unreferenced [OF wt r])
  qed
  from a b c d f g show ?thesis by blast
qed

lemma example_has_work:
  "''work'' \<in> category_id ` set (categories (user_data example_env example_store ''u1''))"
  by (simp add: example_user_def)

lemma example_lacks_hobby:
  "''hobby'' \<notin> category_id ` set (categories (user_data example_env example_store ''u1''))"
  by (simp add: example_user_def)

lemma example_no_hobby_todo:
  "\<forall>t. Some t \<in> set (todos (user_data example_env example_store ''u1'')) \<longrightarrow> categoryId t \<noteq> Some ''hobby''"
  by (auto simp: example_user_def example_todo_def)

theorem deleteUserCategory_cascade_witness:
  "well_typed (user_data example_env example_store ''u1'') \<and>
   ''work'' \<in> category_id ` set (categories (user_data example_env example_store ''u1'')) \<and>
   fst (deleteUserCategory example_env example_store ''u1'' ''work'') = Inr True \<and>
   ''work'' \<notin> category_id ` set (categories
       (user_data example_env (snd (deleteUserCategory example_env example_store ''u1'' ''work'')) ''u1'')) \<and>
   ''hobby'' \<notin> category_id ` set (categories (user_data example_env example_store ''u1'')) \<and>
   \<not> (\<exists>t. Some t \<in> set (todos (user_data example_env example_store ''u1'')) \<and>
           categoryId t = Some ''hobby'') \<and>
   fst (deleteUserCategory example_env example_store ''u1'' ''hobby'') = Inr False \<and>
   user_data example_env (snd (deleteUserCategory example_env example_store ''u1'' ''hobby'')) ''u1'' =
     user_data example_env example_store ''u1''"
proof -
  have wt: "well_typed (user_data example_env example_store ''u1'')" by simp
  note T = deleteUserCategory_cascade [OF wt]
  from T [of "''work''"] example_has_work
  have a: "fst (deleteUserCategory example_env example_store ''u1'' ''work'') = Inr True"
    by blast
  from T [of "''work''"]
  have b: "''work'' \<notin> category_id ` set (categories
       (user_data example_env (snd (deleteUserCategory example_env example_store ''u1'' ''work'')) ''u1''))"
    by blast
  from T [of "''hobby''"] example_lacks_hobby example_no_hobby_todo
  have c: "fst (deleteUserCategory example_env example_store ''u1'' ''hobby'') = Inr False \<and>
   user_data example_env (snd (deleteUserCategory example_env example_store ''u1'' ''hobby'')) ''u1'' =
     user_data example_env example_store ''u1''"
    by blast
  from wt example_has_work a b example_lacks_hobby example_no_hobby_todo c show ?thesis by blast
qed

theorem deleteUserCategory_absent_id_counterexample:
  "''ghost'' \<notin> category_id ` set (categories (user_data example_env dangling_store ''u2'')) \<and>
   fst (deleteUserCategory example_env dangling_store ''u2'' ''ghost'') = Inr False \<and>
   user_data example_env (snd (deleteUserCategory example_env dangling_store ''u2'' ''ghost'')) ''u2''
     \<noteq> user_data example_env dangling_store ''u2''"
proof -
  have wt: "well_typed (user_data example_env dangling_store ''u2'')"
    by (simp add: dangling_user well_typed_def)
  show ?thesis
    unfolding deleteUserCategory_calc [OF wt]
    by (simp add: dangling_user example_todo_def clear_category_def default_categories_example)
qed

section \<open>Deleting a tag\<close>

lemma deleteUserTag_calc:
  assumes "well_typed (user_data e st userId)"
  shows "deleteUserTag e st userId tid =
          (Inr (length (filter (\<lambda>t. tag_id t \<noteq> tid) (tags (user_data e st userId)))
                 < length (tags (user_data e st userId))),
           st(userId \<mapsto> (user_data e st userId)
               \<lparr>tags := filter (\<lambda>t. tag_id t \<noteq> tid) (tags (user_data e st userId)),
                todos := map (\<lambda>s. Some ((the s)\<lparr>todo_tags := filter (\<lambda>t. t \<noteq> tid) (todo_tags (the s))\<rparr>))
                              (todos (user_data e st userId))\<rparr>))"
  using deref_all_defined [OF assms [unfolded well_typed_def]]
  unfolding deleteUserTag_def getUserData_view
  by (simp add: Let_def comp_def)





section \<open>Bulk validation\<close>

lemma validate_each_step:
  "validate_each v l i (x # xs) =
     (if accepted (v x)
      then (the (data (v x)) # fst (validate_each v l (Suc i) xs), snd (validate_each v l (Suc i) xs))
      else (fst (validate_each v l (Suc i) xs), warning l i (v x) # snd (validate_each v l (Suc i) xs)))"
  by (cases "valid (v x)"; cases "data (v x)") (simp_all add: accepted_def warning_def split_beta)

lemma validate_each_accepted:
  "fst (validate_each v l i xs) = map (\<lambda>x. the (data (v x))) (filter (\<lambda>x. accepted (v x)) xs)"
  by (induction xs arbitrary: i) (simp_all add: validate_each_step del: validate_each.simps(2))

lemma validate_each_count:
  "length (snd (validate_each v l i xs)) = length (filter (\<lambda>x. \<not> accepted (v x)) xs)"
  by (induction xs arbitrary: i) (simp_all add: validate_each_step del: validate_each.simps(2))

lemma validate_each_warning:
  "k < length xs \<Longrightarrow> \<not> accepted (v (xs ! k)) \<Longrightarrow>
   warning l (i + k) (v (xs ! k)) \<in> set (snd (validate_each v l i xs))"
proof (induction xs arbitrary: i k)
  case Nil
  then show ?case by simp
next
  case (Cons x xs)
  show ?case
  proof (cases k)
    case 0
    with Cons.prems show ?thesis
      by (simp add: validate_each_step del: validate_each.simps(2))
  next
    case (Suc k')
    with Cons.prems have "k' < length xs" "\<not> accepted (v (xs ! k'))" by simp_all
    from Cons.IH [OF this, of "Suc i"] Suc show ?thesis
      by (simp add: validate_each_step del: validate_each.simps(2))
  qed
qed

lemma validate_each_items:
  "(case read_prop state key of Some (JArr xs) \<Rightarrow> validate_each v l 0 (take cap xs) | _ \<Rightarrow> ([], [])) =
   validate_each v l 0 (items_of state key cap)"
  by (simp add: items_of_def split: option.splits json.splits)

lemma validateTodoState_calc:
  assumes "\<not> not_object state"
  shows "validateTodoState parse now' state =
    \<lparr>valid = True,
     data = Some
       \<lparr>s_todos = map (cross_validate
                     (map category_id (fst (validate_each validateCategory ''Category'' 0 (items_of state ''categories'' MAX_CATEGORIES))))
                     (map tag_id (fst (validate_each validateTag ''Tag'' 0 (items_of state ''tags'' MAX_TAGS)))))
                   (fst (validate_each (validateTodo parse now') ''Todo'' 0 (items_of state ''todos'' MAX_TODOS))),
        s_categories = fst (validate_each validateCategory ''Category'' 0 (items_of state ''categories'' MAX_CATEGORIES)),
        s_tags = fst (validate_each validateTag ''Tag'' 0 (items_of state ''tags'' MAX_TAGS))\<rparr>,
     errors = snd (validate_each (validateTodo parse now') ''Todo'' 0 (items_of state ''todos'' MAX_TODOS)) @
              snd (validate_each validateCategory ''Category'' 0 (items_of state ''categories'' MAX_CATEGORIES)) @
              snd (validate_each validateTag ''Tag'' 0 (items_of state ''tags'' MAX_TAGS))\<rparr>"
  unfolding validateTodoState_def validate_each_items
  using assms by (simp add: split_beta Let_def)

lemma validateTodoState_rejects:
  assumes "not_object state"
  shows "validateTodoState parse now' state =
           \<lparr>valid = False, data = None, errors = [''State must be an object'']\<rparr>"
  using assms by (simp add: validateTodoState_def)

lemma match_template_nonempty: "match_template (p # ps) s \<Longrightarrow> s \<noteq> []"
  by (cases s) auto

lemma validateId_nonempty: "validateId x = Some s \<Longrightarrow> s \<noteq> []"
  by (auto simp: validateId_def SAFE_ID_REGEX_def isValidUUID_def Let_def
           split: option.splits json.splits if_splits dest: match_template_nonempty)

lemma data_of_if:
  "data (if c then \<lparr>valid = False, data = None, errors = e\<rparr>
         else \<lparr>valid = True, data = Some d, errors = []\<rparr>) = Some t \<Longrightarrow> t = d \<and> \<not> c"
  by (cases c) simp_all

lemma validateTodo_category:
  assumes "data (validateTodo parse now' x) = Some t"
  shows "categoryId t =
           (if is_given (read_prop x ''categoryId'') then validateId (read_prop x ''categoryId'') else None)"
proof -
  have nob: "not_object x = False"
    using assms by (cases "not_object x") (simp_all add: validateTodo_def)
  from assms [unfolded validateTodo_def Let_def nob if_False] show ?thesis
    by (drule_tac data_of_if) simp
qed

lemma validateTodo_category_nonempty:
  assumes "data (validateTodo parse now' x) = Some t"
  shows "categoryId t \<noteq> Some []"
  using validateId_nonempty [of "read_prop x ''categoryId''" "[]"]
  by (auto simp: validateTodo_category [OF assms])

lemma validated_members:
  "t \<in> set (validated v items) \<Longrightarrow> \<exists>x. data (v x) = Some t"
  by (auto simp: validated_def accepted_def)

lemma example_state_result:
  "validateTodoState (parseDate example_env) ''2024-04-04T00:00:00.000Z'' example_state =
     \<lparr>valid = True,
      data = Some
        \<lparr>s_todos =
           [\<lparr>todo_id = ''a'', title = ''first'', completed = False, categoryId = Some ''work'',
             todo_tags = [''urgent''], createdAt = ''2024-04-04T00:00:00.000Z'',
             updatedAt = ''2024-04-04T00:00:00.000Z''\<rparr>,
            \<lparr>todo_id = ''c'', title = ''third'', completed = False, categoryId = None,
             todo_tags = [], createdAt = ''2024-01-01T00:00:00.000Z'',
             updatedAt = ''2024-04-04T00:00:00.000Z''\<rparr>],
         s_categories =
           [\<lparr>category_id = ''work'', category_name = ''Work'', icon = ''briefcase'',
             category_color = ''#6366f1''\<rparr>],
         s_tags = [\<lparr>tag_id = ''urgent'', tag_name = ''Urgent'', tag_color = ''#ef4444''\<rparr>]\<rparr>,
      errors = [''Todo at index 1: Invalid or missing todo title'']\<rparr>"
  by code_simp

lemma example_state_is_object: "\<not> not_object example_state"
  by (simp add: example_state_def)

lemma example_second_todo_rejected:
  "1 < length (items_of example_state ''todos'' MAX_TODOS) \<and>
   \<not> accepted (validateTodo (parseDate example_env) ''2024-04-04T00:00:00.000Z''
                  (items_of example_state ''todos'' MAX_TODOS ! 1)) \<and>
   warning ''Todo'' 1 (validateTodo (parseDate example_env) ''2024-04-04T00:00:00.000Z''
                  (items_of example_state ''todos'' MAX_TODOS ! 1)) =
     ''Todo at index 1: Invalid or missing todo title''"
  by code_simp

text \<open>
  C5. In bulk validation of an object, after per-item validation: the payload holds the
  accepted categories and tags, and one todo for each todo accepted by \<^verbatim>\<open>validateTodo\<close>, in
  order; that todo is the accepted one with its \<^verbatim>\<open>categoryId\<close> set to \<^verbatim>\<open>null\<close> unless it is the
  id of an accepted category, and with exactly those tag entries kept that are ids of
  accepted tags. No todo is rejected for a reference that does not resolve.
\<close>

theorem cross_validation_drops_references:
  assumes "\<not> not_object state"
  shows "\<exists>d. data (validateTodoState parse now' state) = Some d \<and>
     s_categories d = validated validateCategory (items_of state ''categories'' MAX_CATEGORIES) \<and>
     s_tags d = validated validateTag (items_of state ''tags'' MAX_TAGS) \<and>
     length (s_todos d) = length (validated (validateTodo parse now') (items_of state ''todos'' MAX_TODOS)) \<and>
     (\<forall>i<length (s_todos d).
        s_todos d ! i =
          (validated (validateTodo parse now') (items_of state ''todos'' MAX_TODOS) ! i)
            \<lparr>categoryId :=
               (case categoryId (validated (validateTodo parse now') (items_of state ''todos'' MAX_TODOS) ! i) of
                  None \<Rightarrow> None
                | Some c \<Rightarrow> if c \<in> category_id ` set (s_categories d) then Some c else None),
             todo_tags :=
               filter (\<lambda>g. g \<in> tag_id ` set (s_tags d))
                 (todo_tags (validated (validateTodo parse now') (items_of state ''todos'' MAX_TODOS) ! i))\<rparr>)"
proof -
  let ?VT = "validated (validateTodo parse now') (items_of state ''todos'' MAX_TODOS)"
  let ?VC = "validated validateCategory (items_of state ''categories'' MAX_CATEGORIES)"
  let ?VG = "validated validateTag (items_of state ''tags'' MAX_TAGS)"
  let ?d = "\<lparr>s_todos = map (cross_validate (map category_id ?VC) (map tag_id ?VG)) ?VT,
             s_categories = ?VC, s_tags = ?VG\<rparr>"
  have d: "data (validateTodoState parse now' state) = Some ?d"
    by (simp add: validateTodoState_calc [OF assms] validate_each_accepted validated_def)
  have each: "cross_validate (map category_id ?VC) (map tag_id ?VG) (?VT ! i) =
          (?VT ! i)\<lparr>categoryId := (case categoryId (?VT ! i) of None \<Rightarrow> None
                                    | Some c \<Rightarrow> if c \<in> category_id ` set ?VC then Some c else None),
                    todo_tags := filter (\<lambda>g. g \<in> tag_id ` set ?VG) (todo_tags (?VT ! i))\<rparr>"
    if "i < length ?VT" for i
  proof -
    from that have "?VT ! i \<in> set ?VT" by simp
    from validated_members [OF this] obtain x where "data (validateTodo parse now' x) = Some (?VT ! i)" ..
    from validateTodo_category_nonempty [OF this] have "categoryId (?VT ! i) \<noteq> Some []" .
    then show ?thesis
      by (cases "categoryId (?VT ! i)") (auto simp: cross_validate_def)
  qed
  show ?thesis
    apply (rule exI [of _ ?d])
    unfolding TodoState.select_convs
    by (simp add: d each)
qed

theorem cross_validation_drops_references_witness:
  "\<not> not_object example_state \<and>
   map todo_id (validated (validateTodo (parseDate example_env) ''2024-04-04T00:00:00.000Z'')
                  (items_of example_state ''todos'' MAX_TODOS)) = [''a'', ''c''] \<and>
   map categoryId (validated (validateTodo (parseDate example_env) ''2024-04-04T00:00:00.000Z'')
                  (items_of example_state ''todos'' MAX_TODOS)) = [Some ''work'', Some ''ghost''] \<and>
   map todo_tags (validated (validateTodo (parseDate example_env) ''2024-04-04T00:00:00.000Z'')
                  (items_of example_state ''todos'' MAX_TODOS)) = [[''urgent'', ''nope''], []] \<and>
   (\<exists>d. data (validateTodoState (parseDate example_env) ''2024-04-04T00:00:00.000Z'' example_state) = Some d \<and>
        map category_id (s_categories d) = [''work''] \<and>
        map tag_id (s_tags d) = [''urgent''] \<and>
        map todo_id (s_todos d) = [''a'', ''c''] \<and>
        map categoryId (s_todos d) = [Some ''work'', None] \<and>
        map todo_tags (s_todos d) = [[''urgent''], []] \<and>
        length (s_todos d) =
          length (validated (validateTodo (parseDate example_env) ''2024-04-04T00:00:00.000Z'')
                    (items_of example_state ''todos'' MAX_TODOS)))"
proof -
  from cross_validation_drops_references [OF example_state_is_object,
         of "parseDate example_env" "''2024-04-04T00:00:00.000Z''"]
  obtain d where d: "data (validateTodoState (parseDate example_env) ''2024-04-04T00:00:00.000Z'' example_state) = Some d"
    and len: "length (s_todos d) =
          length (validated (validateTodo (parseDate example_env) ''2024-04-04T00:00:00.000Z'')
                    (items_of example_state ''todos'' MAX_TODOS))"
    by blast
  from d have out: "map category_id (s_categories d) = [''work'']" "map tag_id (s_tags d) = [''urgent'']"
    "map todo_id (s_todos d) = [''a'', ''c'']" "map categoryId (s_todos d) = [Some ''work'', None]"
    "map todo_tags (s_todos d) = [[''urgent''], []]"
    by (auto simp: example_state_result)
  have v1: "map todo_id (validated (validateTodo (parseDate example_env) ''2024-04-04T00:00:00.000Z'')
                  (items_of example_state ''todos'' MAX_TODOS)) = [''a'', ''c'']"
    by code_simp
  have v2: "map categoryId (validated (validateTodo (parseDate example_env) ''2024-04-04T00:00:00.000Z'')
                  (items_of example_state ''todos'' MAX_TODOS)) = [Some ''work'', Some ''ghost'']"
    by code_simp
  have v3: "map todo_tags (validated (validateTodo (parseDate example_env) ''2024-04-04T00:00:00.000Z'')
                  (items_of example_state ''todos'' MAX_TODOS)) = [[''urgent'', ''nope''], []]"
    by code_simp
  from example_state_is_object v1 v2 v3 d out len show ?thesis
    by - (intro conjI exI [of _ d]; assumption)
qed

text \<open>
  C4, as amended. For an input that is not an object (\<^verbatim>\<open>null\<close>, a boolean, a number, a
  string) \<^verbatim>\<open>validateTodoState\<close> fails: not valid, no payload, the one error \<open>State must be an
  object\<close>; and the migration endpoint, sent such an input by a user who has not migrated,
  answers 400 \<open>Invalid data format\<close> with that error and leaves the user's data as it was.
  For every other input (an object or an array) it is valid and returns a payload
  with exactly the items its validators accept, the todos cross-validated; the number of
  warnings is the number of rejected items among those visited, and each rejected item
  has its warning, which names the collection and the item's index.
\<close>

theorem validateTodoState_lenient:
  "(not_object state \<longrightarrow>
      validateTodoState parse now' state =
        \<lparr>valid = False, data = None, errors = [''State must be an object'']\<rparr>)
   \<and> (not_object state \<and> uid \<noteq> [] \<and> \<not> migrated (user_data e st uid) \<longrightarrow>
        data_POST e now' (Some uid) (Some state) st =
          (Response 400 (ErrorDetails ''Invalid data format'' [''State must be an object'']),
           st(uid \<mapsto> user_data e st uid)))
   \<and> (\<not> not_object state \<longrightarrow>
        valid (validateTodoState parse now' state) \<and>
        (\<exists>d. data (validateTodoState parse now' state) = Some d \<and>
             s_categories d = validated validateCategory (items_of state ''categories'' MAX_CATEGORIES) \<and>
             s_tags d = validated validateTag (items_of state ''tags'' MAX_TAGS) \<and>
             s_todos d = map (cross_validate (map category_id (s_categories d)) (map tag_id (s_tags d)))
                           (validated (validateTodo parse now') (items_of state ''todos'' MAX_TODOS))) \<and>
        length (errors (validateTodoState parse now' state)) =
          length (filter (\<lambda>x. \<not> accepted (validateTodo parse now' x)) (items_of state ''todos'' MAX_TODOS)) +
          length (filter (\<lambda>x. \<not> accepted (validateCategory x)) (items_of state ''categories'' MAX_CATEGORIES)) +
          length (filter (\<lambda>x. \<not> accepted (validateTag x)) (items_of state ''tags'' MAX_TAGS)) \<and>
        (\<forall>i<length (items_of state ''todos'' MAX_TODOS).
           \<not> accepted (validateTodo parse now' (items_of state ''todos'' MAX_TODOS ! i)) \<longrightarrow>
           warning ''Todo'' i (validateTodo parse now' (items_of state ''todos'' MAX_TODOS ! i))
             \<in> set (errors (validateTodoState parse now' state))) \<and>
        (\<forall>i<length (items_of state ''categories'' MAX_CATEGORIES).
           \<not> accepted (validateCategory (items_of state ''categories'' MAX_CATEGORIES ! i)) \<longrightarrow>
           warning ''Category'' i (validateCategory (items_of state ''categories'' MAX_CATEGORIES ! i))
             \<in> set (errors (validateTodoState parse now' state))) \<and>
        (\<forall>i<length (items_of state ''tags'' MAX_TAGS).
           \<not> accepted (validateTag (items_of state ''tags'' MAX_TAGS ! i)) \<longrightarrow>
           warning ''Tag'' i (validateTag (items_of state ''tags'' MAX_TAGS ! i))
             \<in> set (errors (validateTodoState parse now' state))))"
proof (intro conjI impI)
  assume "not_object state"
  then show "validateTodoState parse now' state =
        \<lparr>valid = False, data = None, errors = [''State must be an object'']\<rparr>"
    by (rule validateTodoState_rejects)
next
  assume "not_object state \<and> uid \<noteq> [] \<and> \<not> migrated (user_data e st uid)"
  then have h: "not_object state" "uid \<noteq> []" "\<not> migrated (user_data e st uid)"
    by simp_all
  show "data_POST e now' (Some uid) (Some state) st =
          (Response 400 (ErrorDetails ''Invalid data format'' [''State must be an object'']),
           st(uid \<mapsto> user_data e st uid))"
    by (simp add: data_POST_calc [OF h(2)] h(3) validateTodoState_rejects [OF h(1)])
next
  assume ob: "\<not> not_object state"
  note calc = validateTodoState_calc [OF ob, of parse now']
  show "valid (validateTodoState parse now' state)"
    by (simp add: calc)
  show "\<exists>d. data (validateTodoState parse now' state) = Some d \<and>
             s_categories d = validated validateCategory (items_of state ''categories'' MAX_CATEGORIES) \<and>
             s_tags d = validated validateTag (items_of state ''tags'' MAX_TAGS) \<and>
             s_todos d = map (cross_validate (map category_id (s_categories d)) (map tag_id (s_tags d)))
                           (validated (validateTodo parse now') (items_of state ''todos'' MAX_TODOS))"
    by (simp add: calc validate_each_accepted validated_def)
  show "length (errors (validateTodoState parse now' state)) =
          length (filter (\<lambda>x. \<not> accepted (validateTodo parse now' x)) (items_of state ''todos'' MAX_TODOS)) +
          length (filter (\<lambda>x. \<not> accepted (validateCategory x)) (items_of state ''categories'' MAX_CATEGORIES)) +
          length (filter (\<lambda>x. \<not> accepted (validateTag x)) (items_of state ''tags'' MAX_TAGS))"
    by (simp add: calc validate_each_count)
  show "\<forall>i<length (items_of state ''todos'' MAX_TODOS).
           \<not> accepted (validateTodo parse now' (items_of state ''todos'' MAX_TODOS ! i)) \<longrightarrow>
           warning ''Todo'' i (validateTodo parse now' (items_of state ''todos'' MAX_TODOS ! i))
             \<in> set (errors (validateTodoState parse now' state))"
    using validate_each_warning [of _ "items_of state ''todos'' MAX_TODOS" "validateTodo parse now'" "''Todo''" 0]
    by (simp add: calc)
  show "\<forall>i<length (items_of state ''categories'' MAX_CATEGORIES).
           \<not> accepted (validateCategory (items_of state ''categories'' MAX_CATEGORIES ! i)) \<longrightarrow>
           warning ''Category'' i (validateCategory (items_of state ''categories'' MAX_CATEGORIES ! i))
             \<in> set (errors (validateTodoState parse now' state))"
    using validate_each_warning [of _ "items_of state ''categories'' MAX_CATEGORIES" validateCategory "''Category''" 0]
    by (simp add: calc)
  show "\<forall>i<length (items_of state ''tags'' MAX_TAGS).
           \<not> accepted (validateTag (items_of state ''tags'' MAX_TAGS ! i)) \<longrightarrow>
           warning ''Tag'' i (validateTag (items_of state ''tags'' MAX_TAGS ! i))
             \<in> set (errors (validateTodoState parse now' state))"
    using validate_each_warning [of _ "items_of state ''tags'' MAX_TAGS" validateTag "''Tag''" 0]
    by (simp add: calc)
qed

theorem validateTodoState_lenient_witness:
  "not_object JNull \<and>
   validateTodoState (parseDate example_env) ''2024-04-04T00:00:00.000Z'' JNull =
     \<lparr>valid = False, data = None, errors = [''State must be an object'']\<rparr> \<and>
   ''u1'' \<noteq> [] \<and> \<not> migrated (user_data example_env example_store ''u1'') \<and>
   fst (data_POST example_env ''2024-04-04T00:00:00.000Z'' (Some ''u1'') (Some JNull) example_store) =
     Response 400 (ErrorDetails ''Invalid data format'' [''State must be an object'']) \<and>
   \<not> not_object example_state \<and>
   valid (validateTodoState (parseDate example_env) ''2024-04-04T00:00:00.000Z'' example_state) \<and>
   map todo_id (s_todos (the (data
      (validateTodoState (parseDate example_env) ''2024-04-04T00:00:00.000Z'' example_state)))) = [''a'', ''c''] \<and>
   errors (validateTodoState (parseDate example_env) ''2024-04-04T00:00:00.000Z'' example_state) =
     [''Todo at index 1: Invalid or missing todo title''] \<and>
   ''Todo at index 1: Invalid or missing todo title''
     \<in> set (errors (validateTodoState (parseDate example_env) ''2024-04-04T00:00:00.000Z'' example_state))"
proof -
  note T = validateTodoState_lenient [of _ "parseDate example_env" "''2024-04-04T00:00:00.000Z''"]
  have n: "not_object JNull" by simp
  from T [of JNull] n
  have a: "validateTodoState (parseDate example_env) ''2024-04-04T00:00:00.000Z'' JNull =
     \<lparr>valid = False, data = None, errors = [''State must be an object'']\<rparr>"
    by blast
  have u: "''u1'' \<noteq> []" by simp
  have m: "\<not> migrated (user_data example_env example_store ''u1'')"
    by (simp add: example_user_def)
  from T [of JNull "''u1''" example_env example_store, THEN conjunct2, THEN conjunct1, THEN mp,
          OF conjI, OF n conjI, OF u m]
  have p: "fst (data_POST example_env ''2024-04-04T00:00:00.000Z'' (Some ''u1'') (Some JNull)
                  example_store) =
     Response 400 (ErrorDetails ''Invalid data format'' [''State must be an object''])"
    by simp
  from T [of example_state] example_state_is_object
  have b: "valid (validateTodoState (parseDate example_env) ''2024-04-04T00:00:00.000Z'' example_state)"
    by blast
  from T [of example_state] example_state_is_object
  have "\<forall>i<length (items_of example_state ''todos'' MAX_TODOS).
           \<not> accepted (validateTodo (parseDate example_env) ''2024-04-04T00:00:00.000Z''
                          (items_of example_state ''todos'' MAX_TODOS ! i)) \<longrightarrow>
           warning ''Todo'' i (validateTodo (parseDate example_env) ''2024-04-04T00:00:00.000Z''
                                 (items_of example_state ''todos'' MAX_TODOS ! i))
             \<in> set (errors (validateTodoState (parseDate example_env) ''2024-04-04T00:00:00.000Z'' example_state))"
    by blast
  with example_second_todo_rejected
  have c: "''Todo at index 1: Invalid or missing todo title''
     \<in> set (errors (validateTodoState (parseDate example_env) ''2024-04-04T00:00:00.000Z'' example_state))"
    by metis
  have d: "map todo_id (s_todos (the (data
      (validateTodoState (parseDate example_env) ''2024-04-04T00:00:00.000Z'' example_state)))) = [''a'', ''c'']"
    by (simp add: example_state_result)
  have e: "errors (validateTodoState (parseDate example_env) ''2024-04-04T00:00:00.000Z'' example_state) =
     [''Todo at index 1: Invalid or missing todo title'']"
    by (simp add: example_state_result)
  from n a u m p example_state_is_object b d e c show ?thesis by - (intro conjI; assumption)
qed

theorem validateTodoState_non_object_counterexample:
  "\<not> valid (validateTodoState (parseDate example_env) ''2024-04-04T00:00:00.000Z'' JNull) \<and>
   data (validateTodoState (parseDate example_env) ''2024-04-04T00:00:00.000Z'' JNull) = None \<and>
   fst (data_POST example_env ''2024-04-04T00:00:00.000Z'' (Some ''u1'') (Some JNull) example_store) =
     Response 400 (ErrorDetails ''Invalid data format'' [''State must be an object''])"
  by (simp add: validateTodoState_def data_POST_def with_user_def hasUserMigrated_def
        getUserData_def example_store_def example_user_def)

section \<open>The migration flag\<close>

lemma user_data_other: "v \<noteq> userId \<Longrightarrow> user_data e (st(userId \<mapsto> u)) v = user_data e st v"
  by (simp add: user_data_def getUserData_def split: option.splits)

lemma migrated_upd:
  "migrated u' = migrated (user_data e st userId) \<Longrightarrow>
   migrated (user_data e (st(userId \<mapsto> u')) v) = migrated (user_data e st v)"
  by (cases "v = userId") (simp_all add: user_data_other)

lemma migrated_stored:
  "migrated (user_data e st userId) \<Longrightarrow> st(userId \<mapsto> user_data e st userId) = st"
  by (auto simp: user_data_def getUserData_def getDefaultUserData_def split: option.splits)

lemma getUserTodos_migrated:
  "migrated (user_data e (snd (getUserTodos e st userId)) v) = migrated (user_data e st v)"
  by (simp add: getUserTodos_def getUserData_view migrated_upd)

lemma getUserCategories_migrated:
  "migrated (user_data e (snd (getUserCategories e st userId)) v) = migrated (user_data e st v)"
  by (simp add: getUserCategories_def getUserData_view migrated_upd)

lemma getUserTags_migrated:
  "migrated (user_data e (snd (getUserTags e st userId)) v) = migrated (user_data e st v)"
  by (simp add: getUserTags_def getUserData_view migrated_upd)

lemma getUserData_migrated:
  "migrated (user_data e (snd (getUserData e st userId)) v) = migrated (user_data e st v)"
  by (simp add: getUserData_view migrated_upd)

lemma addUserTodo_migrated:
  "migrated (user_data e (snd (addUserTodo e st userId t)) v) = migrated (user_data e st v)"
  by (simp add: addUserTodo_def getUserData_view migrated_upd Let_def)

lemma addUserCategory_migrated:
  "migrated (user_data e (snd (addUserCategory e st userId c)) v) = migrated (user_data e st v)"
  by (simp add: addUserCategory_def getUserData_view migrated_upd Let_def)

lemma addUserTag_migrated:
  "migrated (user_data e (snd (addUserTag e st userId c)) v) = migrated (user_data e st v)"
  by (simp add: addUserTag_def getUserData_view migrated_upd Let_def)

lemma reorderUserTodos_migrated:
  "migrated (user_data e (snd (reorderUserTodos e st userId i j)) v) = migrated (user_data e st v)"
  by (simp add: reorder_calc migrated_upd Let_def)

lemma updateUserTodo_migrated:
  "migrated (user_data e (snd (updateUserTodo e st userId i d n)) v) = migrated (user_data e st v)"
  unfolding updateUserTodo_def getUserData_view
  by (simp add: migrated_upd Let_def split: sum.splits option.splits)

lemma deleteUserTodo_migrated:
  "migrated (user_data e (snd (deleteUserTodo e st userId i)) v) = migrated (user_data e st v)"
  unfolding deleteUserTodo_def getUserData_view
  by (simp add: migrated_upd Let_def split: sum.splits)

lemma deleteUserCategory_migrated:
  "migrated (user_data e (snd (deleteUserCategory e st userId i)) v) = migrated (user_data e st v)"
  unfolding deleteUserCategory_def getUserData_view
  by (simp add: migrated_upd Let_def split: sum.splits)

lemma deleteUserTag_migrated:
  "migrated (user_data e (snd (deleteUserTag e st userId i)) v) = migrated (user_data e st v)"
  unfolding deleteUserTag_def getUserData_view
  by (simp add: migrated_upd Let_def split: sum.splits)

lemmas store_migrated =
  getUserTodos_migrated getUserCategories_migrated getUserTags_migrated getUserData_migrated
  addUserTodo_migrated addUserCategory_migrated addUserTag_migrated reorderUserTodos_migrated
  updateUserTodo_migrated deleteUserTodo_migrated deleteUserCategory_migrated deleteUserTag_migrated

lemma with_user_migrated:
  assumes "\<And>uid. migrated (user_data e (snd (h uid)) v) = migrated (user_data e st v)"
  shows "migrated (user_data e (snd (with_user sess st h)) v) = migrated (user_data e st v)"
  using assms by (simp add: with_user_def split: option.splits)

lemma todos_GET_migrated:
  "migrated (user_data e (snd (todos_GET e sess st)) v) = migrated (user_data e st v)"
  unfolding todos_GET_def
  by (rule with_user_migrated) (simp add: split_beta store_migrated)

lemma todos_POST_migrated:
  "migrated (user_data e (snd (todos_POST e n i sess body st)) v) = migrated (user_data e st v)"
  unfolding todos_POST_def
  by (rule with_user_migrated)
     (simp add: split_beta store_migrated Let_def split: option.splits json.splits bool.splits)

lemma todo_GET_migrated:
  "migrated (user_data e (snd (todo_GET e sess i st)) v) = migrated (user_data e st v)"
  unfolding todo_GET_def
  by (rule with_user_migrated)
     (simp add: split_beta store_migrated Let_def split: option.splits sum.splits)

lemma todo_PUT_migrated:
  "migrated (user_data e (snd (todo_PUT e n sess i body st)) v) = migrated (user_data e st v)"
proof -
  have "\<And>uid d. migrated (user_data e (snd (case updateUserTodo e st uid i d n of
                   (Inl ex, st1) \<Rightarrow> (invalid_body, st1)
                 | (Inr None, st1) \<Rightarrow> (Response 404 (ErrorBody ''Todo not found''), st1)
                 | (Inr (Some updatedTodo), st1) \<Rightarrow> (Response 200 (OneTodo updatedTodo), st1))) v)
          = migrated (user_data e (snd (updateUserTodo e st uid i d n)) v)"
    by (simp split: prod.splits sum.splits option.splits)
  then show ?thesis
    unfolding todo_PUT_def
    by - (rule with_user_migrated,
          simp add: store_migrated Let_def split: option.splits bool.splits)
qed

lemma todo_DELETE_migrated:
  "migrated (user_data e (snd (todo_DELETE e sess i st)) v) = migrated (user_data e st v)"
proof -
  have "\<And>uid. migrated (user_data e (snd (case deleteUserTodo e st uid i of
         (Inl ex, st1) \<Rightarrow> (Uncaught ex, st1)
       | (Inr deleted, st1) \<Rightarrow>
           if \<not> deleted then (Response 404 (ErrorBody ''Todo not found''), st1)
           else (Response 200 Success, st1))) v)
          = migrated (user_data e (snd (deleteUserTodo e st uid i)) v)"
    by (simp split: prod.splits sum.splits)
  then show ?thesis
    unfolding todo_DELETE_def
    by - (rule with_user_migrated, simp add: store_migrated)
qed

lemma category_DELETE_migrated:
  "migrated (user_data e (snd (category_DELETE e sess i st)) v) = migrated (user_data e st v)"
proof -
  have "\<And>uid. migrated (user_data e (snd (case deleteUserCategory e st uid i of
         (Inl ex, st1) \<Rightarrow> (Uncaught ex, st1)
       | (Inr deleted, st1) \<Rightarrow>
           if \<not> deleted then (Response 404 (ErrorBody ''Category not found''), st1)
           else (Response 200 Success, st1))) v)
          = migrated (user_data e (snd (deleteUserCategory e st uid i)) v)"
    by (simp split: prod.splits sum.splits)
  then show ?thesis
    unfolding category_DELETE_def
    by - (rule with_user_migrated, simp add: store_migrated)
qed

lemma tag_DELETE_migrated:
  "migrated (user_data e (snd (tag_DELETE e sess i st)) v) = migrated (user_data e st v)"
proof -
  have "\<And>uid. migrated (user_data e (snd (case deleteUserTag e st uid i of
         (Inl ex, st1) \<Rightarrow> (Uncaught ex, st1)
       | (Inr deleted, st1) \<Rightarrow>
           if \<not> deleted then (Response 404 (ErrorBody ''Tag not found''), st1)
           else (Response 200 Success, st1))) v)
          = migrated (user_data e (snd (deleteUserTag e st uid i)) v)"
    by (simp split: prod.splits sum.splits)
  then show ?thesis
    unfolding tag_DELETE_def
    by - (rule with_user_migrated, simp add: store_migrated)
qed

lemma data_GET_migrated:
  "migrated (user_data e (snd (data_GET e sess st)) v) = migrated (user_data e st v)"
  unfolding data_GET_def
  by (rule with_user_migrated) (simp add: split_beta store_migrated)

lemma categories_GET_migrated:
  "migrated (user_data e (snd (categories_GET e sess st)) v) = migrated (user_data e st v)"
  unfolding categories_GET_def
  by (rule with_user_migrated) (simp add: split_beta store_migrated)

lemma categories_POST_migrated:
  "migrated (user_data e (snd (categories_POST e i sess body st)) v) = migrated (user_data e st v)"
  unfolding categories_POST_def
  by (rule with_user_migrated)
     (simp add: split_beta store_migrated Let_def split: option.splits bool.splits)

lemma tags_GET_migrated:
  "migrated (user_data e (snd (tags_GET e sess st)) v) = migrated (user_data e st v)"
  unfolding tags_GET_def
  by (rule with_user_migrated) (simp add: split_beta store_migrated)

lemma tags_POST_migrated:
  "migrated (user_data e (snd (tags_POST e i sess body st)) v) = migrated (user_data e st v)"
  unfolding tags_POST_def
  by (rule with_user_migrated)
     (simp add: split_beta store_migrated Let_def split: option.splits bool.splits)

lemmas handler_migrated =
  todos_GET_migrated todos_POST_migrated todo_GET_migrated todo_PUT_migrated todo_DELETE_migrated
  category_DELETE_migrated tag_DELETE_migrated data_GET_migrated categories_GET_migrated
  categories_POST_migrated tags_GET_migrated tags_POST_migrated

lemma data_POST_rejects_second:
  assumes "uid \<noteq> []" "migrated (user_data e st uid)"
  shows "data_POST e n (Some uid) body st =
           (Response 400 (AlreadyMigrated ''Data already migrated'' True), st)"
  by (simp add: data_POST_calc [OF assms(1)] assms(2) migrated_stored [OF assms(2)])

lemma data_POST_mono:
  assumes "migrated (user_data e st v)"
  shows "migrated (user_data e (snd (data_POST e n sess body st)) v)"
proof (cases "sess = None \<or> sess = Some []")
  case True
  with assms show ?thesis by (auto simp: data_POST_def with_user_def)
next
  case False
  then obtain uid where s: "sess = Some uid" "uid \<noteq> []" by auto
  show ?thesis
    using assms unfolding s data_POST_calc [OF s(2)]
    by (cases "v = uid") (simp_all add: user_data_other migrated_upd split: option.splits)
qed

lemma data_POST_sets:
  assumes "\<not> migrated (user_data e st v)"
      and "migrated (user_data e (snd (data_POST e n sess body st)) v)"
  shows "sess = Some v \<and>
         (\<exists>a b c w. fst (data_POST e n sess body st) = Response 200 (MigrationResult True True a b c w))"
proof (cases "sess = None \<or> sess = Some []")
  case True
  with assms show ?thesis by (auto simp: data_POST_def with_user_def)
next
  case False
  then obtain uid where s: "sess = Some uid" "uid \<noteq> []" by auto
  show ?thesis
  proof (cases "v = uid")
    case True
    with assms show ?thesis
      unfolding s data_POST_calc [OF s(2)]
      by (auto split: option.splits if_splits)
  next
    case False
    with assms show ?thesis
      unfolding s data_POST_calc [OF s(2)]
      by (simp add: user_data_other split: option.splits if_splits)
  qed
qed

lemma handle_mono:
  "migrated (user_data e st v) \<Longrightarrow> migrated (user_data e (snd (handle e r st)) v)"
  by (cases "route r") (simp_all add: handle_def handler_migrated data_POST_mono)

lemma handle_sets:
  assumes "\<not> migrated (user_data e st v)"
      and "migrated (user_data e (snd (handle e r st)) v)"
  shows "session r = Some v \<and>
         (\<exists>body a b c w. route r = POST_data body \<and>
            fst (handle e r st) = Response 200 (MigrationResult True True a b c w))"
proof (cases "route r")
  case (POST_data body)
  with assms data_POST_sets [of e st v "now r" "session r" body] show ?thesis
    by (auto simp: handle_def)
qed (use assms in \<open>simp_all add: handle_def handler_migrated\<close>)

lemma serve_mono:
  "migrated (user_data e st v) \<Longrightarrow> migrated (user_data e (serve e st rs) v)"
  by (induction rs arbitrary: st) (simp_all add: handle_mono)

text \<open>
  C3, as amended. Through the endpoints, requests being served one after another: once a
  user's flag \<^verbatim>\<open>migrated\<close> is true it stays true whatever requests follow; a request that
  turns it from false to true is that user's \<^verbatim>\<open>POST /api/data\<close>, answered 200 with the
  result of the import; and while the flag is true the user's \<^verbatim>\<open>POST /api/data\<close> is answered
  400 \<open>Data already migrated\<close> and leaves the store exactly as it was. (The store's own
  \<^verbatim>\<open>setUserData\<close>, \<^verbatim>\<open>setUserMigrated\<close> and \<^verbatim>\<open>importUserData\<close> are not guarded; no handler calls
  the first two.)
\<close>

theorem migrated_set_once_by_import:
  "(migrated (user_data e st u) \<longrightarrow> migrated (user_data e (serve e st rs) u))
   \<and> (\<not> migrated (user_data e st u) \<and> migrated (user_data e (snd (handle e r st)) u) \<longrightarrow>
        session r = Some u \<and>
        (\<exists>body a b c w. route r = POST_data body \<and>
           fst (handle e r st) = Response 200 (MigrationResult True True a b c w)))
   \<and> (migrated (user_data e st u) \<and> u \<noteq> [] \<longrightarrow>
        handle e \<lparr>session = Some u, route = POST_data body, now = n, newId = i\<rparr> st =
          (Response 400 (AlreadyMigrated ''Data already migrated'' True), st))"
  using serve_mono [of e st u rs] handle_sets [of e st u r]
  by (simp add: handle_def data_POST_rejects_second)

lemma example_user_not_migrated [simp]: "\<not> migrated example_user"
  by (simp add: example_user_def)

lemma example_not_migrated: "\<not> migrated (user_data example_env example_store ''u1'')"
  by simp

lemma first_migration:
  "handle example_env migrate_request example_store =
     (Response 200 (MigrationResult True True 2 1 1
        (Some [''Todo at index 1: Invalid or missing todo title''])),
      example_store(''u1'' \<mapsto> example_user
        \<lparr>todos := map Some (s_todos (the (data (validateTodoState (parseDate example_env)
                                 ''2024-04-04T00:00:00.000Z'' example_state)))),
         categories := s_categories (the (data (validateTodoState (parseDate example_env)
                                 ''2024-04-04T00:00:00.000Z'' example_state))),
         tags := s_tags (the (data (validateTodoState (parseDate example_env)
                                 ''2024-04-04T00:00:00.000Z'' example_state))),
         migrated := True\<rparr>))"
proof -
  have u: "''u1'' \<noteq> []" by simp
  show ?thesis
    unfolding handle_def migrate_request_def
    by (simp add: data_POST_calc [OF u] example_not_migrated)
       (simp add: example_state_result)
qed

theorem migrated_set_once_by_import_witness:
  "\<not> migrated (user_data example_env example_store ''u1'') \<and>
   migrated (user_data example_env (snd (handle example_env migrate_request example_store)) ''u1'') \<and>
   session migrate_request = Some ''u1'' \<and>
   (\<exists>body a b c w. route migrate_request = POST_data body \<and>
      fst (handle example_env migrate_request example_store) =
        Response 200 (MigrationResult True True a b c w)) \<and>
   migrated (user_data example_env
      (serve example_env (snd (handle example_env migrate_request example_store)) later_requests) ''u1'') \<and>
   ''u1'' \<noteq> [] \<and>
   handle example_env
      \<lparr>session = Some ''u1'', route = POST_data (Some example_state),
       now = ''2024-04-08T00:00:00.000Z'', newId = ''n5''\<rparr>
      (snd (handle example_env migrate_request example_store)) =
     (Response 400 (AlreadyMigrated ''Data already migrated'' True),
      snd (handle example_env migrate_request example_store))"
proof -
  let ?st1 = "snd (handle example_env migrate_request example_store)"
  have w2: "migrated (user_data example_env ?st1 ''u1'')"
    by (simp add: first_migration)
  have u: "''u1'' \<noteq> []" by simp
  note A = migrated_set_once_by_import [of example_env example_store "''u1''" _ migrate_request]
  note B = migrated_set_once_by_import [of example_env ?st1 "''u1''" later_requests _
             "Some example_state" "''2024-04-08T00:00:00.000Z''" "''n5''"]
  from A example_not_migrated w2
  have first: "session migrate_request = Some ''u1'' \<and>
   (\<exists>body a b c w. route migrate_request = POST_data body \<and>
      fst (handle example_env migrate_request example_store) =
        Response 200 (MigrationResult True True a b c w))"
    by blast
  from B w2 have later: "migrated (user_data example_env (serve example_env ?st1 later_requests) ''u1'')"
    by blast
  from B w2 u have second: "handle example_env
      \<lparr>session = Some ''u1'', route = POST_data (Some example_state),
       now = ''2024-04-08T00:00:00.000Z'', newId = ''n5''\<rparr> ?st1 =
     (Response 400 (AlreadyMigrated ''Data already migrated'' True), ?st1)"
    by blast
  from example_not_migrated w2 first later u second show ?thesis
    by - (intro conjI; (elim conjE)?; assumption)
qed

lemma imported_user:
  "user_data example_env imported_store ''u1'' =
     example_user\<lparr>todos := [Some (example_todo ''z'' None [])], categories := [], tags := [],
                  migrated := True\<rparr>"
  by (simp add: imported_store_def importUserData_calc)

theorem store_resets_migrated_counterexample:
  "migrated (user_data example_env imported_store ''u1'') \<and>
   \<not> migrated (user_data example_env
        (snd (setUserData example_env imported_store ''u1'' reset_flag)) ''u1'') \<and>
   \<not> migrated (user_data example_env example_store ''u1'') \<and>
   migrated (user_data example_env (setUserMigrated example_env example_store ''u1'') ''u1'') \<and>
   todos (user_data example_env (setUserMigrated example_env example_store ''u1'') ''u1'') =
     todos (user_data example_env example_store ''u1'') \<and>
   todos (user_data example_env imported_store ''u1'') = [Some (example_todo ''z'' None [])] \<and>
   todos (user_data example_env
        (snd (importUserData example_env imported_store ''u1''
                \<lparr>s_todos = [], s_categories = [], s_tags = []\<rparr>)) ''u1'') = []"
  by (simp add: imported_user example_not_migrated setUserData_def setUserMigrated_def
        getUserData_view reset_flag_def importUserData_calc Let_def)

section \<open>The sanitizer\<close>

lemma replace_all_length: "length (replace_all m s) \<le> length s"
proof (induction m s rule: replace_all.induct)
  case (1 m)
  then show ?case by simp
next
  case (2 m c cs)
  show ?case
  proof (cases "m (c # cs)")
    case None
    with 2 show ?thesis by simp
  next
    case (Some n)
    show ?thesis
    proof (cases n)
      case 0
      with Some 2 show ?thesis by simp
    next
      case (Suc k)
      with Some 2(3) [of n k] have "length (replace_all m (drop k cs)) \<le> length (drop k cs)"
        by simp
      with Some Suc show ?thesis by simp
    qed
  qed
qed

text \<open>
  For a string input the sanitizer trims, truncates to the maximum, and only then applies
  the two replacements; the result is no longer than the maximum.
\<close>

lemma sanitizeString_bounded:
  "sanitizeString (Some (JStr s)) maxLength =
     Some (replace_all match_handler (replace_all match_script (take maxLength (trim s)))) \<and>
   length (the (sanitizeString (Some (JStr s)) maxLength)) \<le> maxLength"
proof -
  have "length (replace_all match_handler (replace_all match_script (take maxLength (trim s))))
          \<le> length (take maxLength (trim s))"
    using replace_all_length [of match_handler] replace_all_length [of match_script]
    by (meson order_trans)
  then show ?thesis by (simp add: sanitizeString_def)
qed

text \<open>
  C2. The string the sanitizer returns is to hold no script tag and no substring that
  matches the event-handler pattern. At the two titles below it holds one: each
  replacement is one pass from left to right, and the text that closes up around a removed
  match is not looked at again. Both results are accepted as titles.
\<close>

theorem sanitizeString_leaves_patterns:
  "sanitizeString (Some (JStr ''oonclick=nclick=alert(1)'')) MAX_TITLE_LENGTH = Some ''onclick=alert(1)'' \<and>
   has_match match_handler ''onclick=alert(1)'' \<and>
   sanitizeString (Some (JStr ''<scr<script></script>ipt>alert(1)</script>'')) MAX_TITLE_LENGTH =
     Some ''<script>alert(1)</script>'' \<and>
   has_match match_script ''<script>alert(1)</script>'' \<and>
   validateNewTodoInput (JObj [(''title'', JStr ''oonclick=nclick=alert(1)'')]) =
     \<lparr>valid = True,
      data = Some \<lparr>n_title = ''onclick=alert(1)'', n_categoryId = None, n_tags = []\<rparr>,
      errors = []\<rparr>"
  by code_simp

section \<open>Where references are kept\<close>

lemma resolves_cross_validate:
  "resolves cs gs (Some (cross_validate (map category_id cs) (map tag_id gs) t))"
  by (simp add: resolves_def cross_validate_def list_all_iff split: option.splits)

lemma resolves_clear_category:
  "resolves cs gs (Some t) \<Longrightarrow>
   resolves (filter (\<lambda>x. category_id x \<noteq> cid) cs) gs (Some (clear_category cid t))"
  by (auto simp: resolves_def clear_category_def split: option.splits)

lemma resolves_untag:
  "resolves cs gs (Some t) \<Longrightarrow>
   resolves cs (filter (\<lambda>x. tag_id x \<noteq> tid) gs)
     (Some (t\<lparr>todo_tags := filter (\<lambda>x. x \<noteq> tid) (todo_tags t)\<rparr>))"
  by (auto simp: resolves_def list_all_iff split: option.splits)

lemma integrity_map:
  assumes "list_all (\<lambda>s. s \<noteq> None) xs"
      and "list_all (resolves cs gs) xs"
      and "\<And>t. resolves cs gs (Some t) \<Longrightarrow> resolves cs' gs' (Some (f t))"
  shows "list_all (resolves cs' gs') (map (\<lambda>s. Some (f (the s))) xs)"
  using assms(1,2)
proof (induction xs)
  case Nil
  then show ?case by simp
next
  case (Cons x xs)
  then obtain t where "x = Some t" by auto
  with Cons assms(3) show ?case by simp
qed

lemma example_integrity: "referential_integrity (user_data example_env example_store ''u1'')"
  by code_simp

lemma import_establishes_integrity:
  assumes "\<not> not_object state" and "uid \<noteq> []" and "\<not> migrated (user_data e st uid)"
  shows "referential_integrity (user_data e (snd (data_POST e n (Some uid) (Some state) st)) uid) \<and>
         migrated (user_data e (snd (data_POST e n (Some uid) (Some state) st)) uid)"
proof -
  let ?VT = "fst (validate_each (validateTodo (parseDate e) n) ''Todo'' 0 (items_of state ''todos'' MAX_TODOS))"
  let ?VC = "fst (validate_each validateCategory ''Category'' 0 (items_of state ''categories'' MAX_CATEGORIES))"
  let ?VG = "fst (validate_each validateTag ''Tag'' 0 (items_of state ''tags'' MAX_TAGS))"
  let ?ts = "map (cross_validate (map category_id ?VC) (map tag_id ?VG)) ?VT"
  have d: "data (validateTodoState (parseDate e) n state) =
             Some \<lparr>s_todos = ?ts, s_categories = ?VC, s_tags = ?VG\<rparr>"
    by (simp add: validateTodoState_calc [OF assms(1)])
  have u: "user_data e (snd (data_POST e n (Some uid) (Some state) st)) uid =
             (user_data e st uid)\<lparr>todos := map Some ?ts, categories := ?VC, tags := ?VG,
                                   migrated := True\<rparr>"
    by (simp add: data_POST_calc [OF assms(2)] assms(3) d)
  have "list_all (resolves ?VC ?VG) (map Some ?ts)"
    by (simp add: list_all_iff resolves_cross_validate)
  then show ?thesis
    by (simp add: u referential_integrity_def)
qed

lemma deletes_preserve_integrity:
  assumes "well_typed (user_data e st uid)" and "referential_integrity (user_data e st uid)"
  shows "referential_integrity (user_data e (snd (deleteUserCategory e st uid cid)) uid) \<and>
         referential_integrity (user_data e (snd (deleteUserTag e st uid tid)) uid)"
proof
  let ?u = "user_data e st uid"
  have wt: "list_all (\<lambda>s. s \<noteq> None) (todos ?u)"
    using assms(1) by (simp add: well_typed_def)
  have ri: "list_all (resolves (categories ?u) (tags ?u)) (todos ?u)"
    using assms(2) by (simp add: referential_integrity_def)
  have "list_all (resolves (filter (\<lambda>x. category_id x \<noteq> cid) (categories ?u)) (tags ?u))
          (map (\<lambda>s. Some (clear_category cid (the s))) (todos ?u))"
    by (rule integrity_map [OF wt ri]) (rule resolves_clear_category)
  then show "referential_integrity (user_data e (snd (deleteUserCategory e st uid cid)) uid)"
    by (simp add: deleteUserCategory_calc [OF assms(1)] referential_integrity_def)
  have "list_all (resolves (categories ?u) (filter (\<lambda>x. tag_id x \<noteq> tid) (tags ?u)))
          (map (\<lambda>s. Some ((the s)\<lparr>todo_tags := filter (\<lambda>x. x \<noteq> tid) (todo_tags (the s))\<rparr>)) (todos ?u))"
    by (rule integrity_map [OF wt ri]) (rule resolves_untag)
  then show "referential_integrity (user_data e (snd (deleteUserTag e st uid tid)) uid)"
    by (simp add: deleteUserTag_calc [OF assms(1)] referential_integrity_def)
qed

lemma addUserTodo_integrity:
  assumes "referential_integrity (user_data e st uid)"
      and "resolves (categories (user_data e st uid)) (tags (user_data e st uid)) (Some todo)"
  shows "referential_integrity (user_data e (snd (addUserTodo e st uid todo)) uid)"
  using assms
  by (simp add: addUserTodo_def getUserData_view Let_def referential_integrity_def)

lemma resolves_merge_todo:
  assumes "resolves cs gs (Some old)"
      and "\<forall>c. u_categoryId updates = Some (Some c) \<longrightarrow> c \<in> category_id ` set cs"
      and "\<forall>ts. u_tags updates = Some ts \<longrightarrow> set ts \<subseteq> tag_id ` set gs"
  shows "resolves cs gs (Some (merge_todo old updates n))"
  using assms
  by (auto simp: resolves_def merge_todo_fields list_all_iff split: option.splits)

lemma list_all_update: "list_all P xs \<Longrightarrow> P y \<Longrightarrow> list_all P (xs[i := y])"
  by (induction xs arbitrary: i) (auto split: nat.splits)

lemma updateUserTodo_integrity:
  assumes ri: "referential_integrity (user_data e st uid)"
      and c: "\<forall>c. u_categoryId updates = Some (Some c) \<longrightarrow>
                c \<in> category_id ` set (categories (user_data e st uid))"
      and g: "\<forall>ts. u_tags updates = Some ts \<longrightarrow> set ts \<subseteq> tag_id ` set (tags (user_data e st uid))"
  shows "referential_integrity (user_data e (snd (updateUserTodo e st uid i updates n)) uid)"
proof (cases "findIndex_id (todos (user_data e st uid)) i")
  case (Inl ex)
  with ri show ?thesis by (simp add: updateUserTodo_throws)
next
  case (Inr r)
  show ?thesis
  proof (cases r)
    case None
    with Inr ri show ?thesis by (simp add: updateUserTodo_missing)
  next
    case (Some k)
    with Inr have f: "findIndex_id (todos (user_data e st uid)) i = Inr (Some k)" by simp
    from findIndex_id_Some [OF f] obtain old where
      h: "k < length (todos (user_data e st uid))" "todos (user_data e st uid) ! k = Some old"
      by blast
    from ri h have "resolves (categories (user_data e st uid)) (tags (user_data e st uid)) (Some old)"
      by (metis list_all_length referential_integrity_def)
    from resolves_merge_todo [OF this c g]
    have "resolves (categories (user_data e st uid)) (tags (user_data e st uid))
            (Some (merge_todo old updates n))" .
    with ri show ?thesis
      by (simp add: updateUserTodo_found [OF f h(2)] referential_integrity_def list_all_update)
  qed
qed

lemma example_todo_resolves:
  "resolves (categories (user_data example_env example_store ''u1''))
     (tags (user_data example_env example_store ''u1''))
     (Some (example_todo ''n'' (Some ''personal'') [''later'']))"
  by code_simp

lemma resolving_updates_category:
  "\<forall>c. u_categoryId resolving_updates = Some (Some c) \<longrightarrow>
       c \<in> category_id ` set (categories (user_data example_env example_store ''u1''))"
  by (simp add: resolving_updates_def example_user_def)

lemma resolving_updates_tags:
  "\<forall>ts. u_tags resolving_updates = Some ts \<longrightarrow>
        set ts \<subseteq> tag_id ` set (tags (user_data example_env example_store ''u1''))"
  by (simp add: resolving_updates_def example_user_def)

text \<open>
  C1, as amended. Referential integrity is established by the bulk import and kept by the
  deletes, and creation and update keep it when the ids they store resolve: after a
  migration of an object by a user who has not migrated, after \<^verbatim>\<open>deleteUserCategory\<close> or
  \<^verbatim>\<open>deleteUserTag\<close> on a consistent state whose todo array holds only Todos, after
  \<^verbatim>\<open>addUserTodo\<close> of a todo whose category and tags are ids of the user's collections, and
  after \<^verbatim>\<open>updateUserTodo\<close> (on any consistent state, whatever its todo array holds and whether
  the call returns or throws) with an update whose category and tags are such ids, every
  category a todo carries is the id of one of the user's categories and every tag the id
  of one of the user's tags. The endpoints that create and update do not check that: they
  validate the format of the ids only.
\<close>

theorem referential_integrity_kept:
  "(\<not> not_object state \<and> uid \<noteq> [] \<and> \<not> migrated (user_data e st uid) \<longrightarrow>
      referential_integrity (user_data e (snd (data_POST e n (Some uid) (Some state) st)) uid))
   \<and> (well_typed (user_data e st uid) \<and> referential_integrity (user_data e st uid) \<longrightarrow>
        referential_integrity (user_data e (snd (deleteUserCategory e st uid cid)) uid) \<and>
        referential_integrity (user_data e (snd (deleteUserTag e st uid tid)) uid))
   \<and> (referential_integrity (user_data e st uid) \<and>
        resolves (categories (user_data e st uid)) (tags (user_data e st uid)) (Some todo) \<longrightarrow>
        referential_integrity (user_data e (snd (addUserTodo e st uid todo)) uid))
   \<and> (referential_integrity (user_data e st uid) \<and>
        (\<forall>c. u_categoryId updates = Some (Some c) \<longrightarrow>
             c \<in> category_id ` set (categories (user_data e st uid))) \<and>
        (\<forall>ts. u_tags updates = Some ts \<longrightarrow> set ts \<subseteq> tag_id ` set (tags (user_data e st uid))) \<longrightarrow>
        referential_integrity (user_data e (snd (updateUserTodo e st uid i updates n)) uid))"
  using import_establishes_integrity [of state uid e st n]
        deletes_preserve_integrity [of e st uid cid tid]
        addUserTodo_integrity [of e st uid todo]
        updateUserTodo_integrity [of e st uid updates i n]
  by blast

theorem referential_integrity_kept_witness:
  "\<not> not_object example_state \<and> ''u1'' \<noteq> [] \<and>
   \<not> migrated (user_data example_env example_store ''u1'') \<and>
   referential_integrity (user_data example_env
      (snd (data_POST example_env ''2024-04-04T00:00:00.000Z'' (Some ''u1'') (Some example_state)
              example_store)) ''u1'') \<and>
   well_typed (user_data example_env example_store ''u1'') \<and>
   referential_integrity (user_data example_env example_store ''u1'') \<and>
   referential_integrity (user_data example_env
      (snd (deleteUserCategory example_env example_store ''u1'' ''work'')) ''u1'') \<and>
   referential_integrity (user_data example_env
      (snd (deleteUserTag example_env example_store ''u1'' ''urgent'')) ''u1'') \<and>
   resolves (categories (user_data example_env example_store ''u1''))
     (tags (user_data example_env example_store ''u1''))
     (Some (example_todo ''n'' (Some ''personal'') [''later''])) \<and>
   referential_integrity (user_data example_env
      (snd (addUserTodo example_env example_store ''u1''
              (example_todo ''n'' (Some ''personal'') [''later'']))) ''u1'') \<and>
   u_categoryId resolving_updates = Some (Some ''personal'') \<and>
   u_tags resolving_updates = Some [''later''] \<and>
   referential_integrity (user_data example_env
      (snd (updateUserTodo example_env example_store ''u1'' ''a'' resolving_updates
              ''2024-04-04T00:00:00.000Z'')) ''u1'')"
proof -
  have u: "''u1'' \<noteq> []" by simp
  have wt: "well_typed (user_data example_env example_store ''u1'')" by simp
  have r: "u_categoryId resolving_updates = Some (Some ''personal'')"
          "u_tags resolving_updates = Some [''later'']"
    by (simp_all add: resolving_updates_def)
  note T = referential_integrity_kept [of example_state "''u1''" example_env example_store
             "''2024-04-04T00:00:00.000Z''" "''work''" "''urgent''"
             "example_todo ''n'' (Some ''personal'') [''later'']" resolving_updates "''a''"]
  from T example_state_is_object u example_not_migrated
  have a: "referential_integrity (user_data example_env
      (snd (data_POST example_env ''2024-04-04T00:00:00.000Z'' (Some ''u1'') (Some example_state)
              example_store)) ''u1'')"
    by blast
  from T wt example_integrity
  have b: "referential_integrity (user_data example_env
      (snd (deleteUserCategory example_env example_store ''u1'' ''work'')) ''u1'')"
    "referential_integrity (user_data example_env
      (snd (deleteUserTag example_env example_store ''u1'' ''urgent'')) ''u1'')"
    by blast+
  from T example_integrity example_todo_resolves
  have c: "referential_integrity (user_data example_env
      (snd (addUserTodo example_env example_store ''u1''
              (example_todo ''n'' (Some ''personal'') [''later'']))) ''u1'')"
    by blast
  from T example_integrity resolving_updates_category resolving_updates_tags
  have d: "referential_integrity (user_data example_env
      (snd (updateUserTodo example_env example_store ''u1'' ''a'' resolving_updates
              ''2024-04-04T00:00:00.000Z'')) ''u1'')"
    by blast
  from example_state_is_object u example_not_migrated a wt example_integrity b
       example_todo_resolves c r d
  show ?thesis by - (intro conjI; assumption)
qed

text \<open>
  In a consistent store, \<^verbatim>\<open>POST /api/todos\<close> with a category id and a tag id of the right
  format that name nothing is answered 201 and stores the todo with both, and
  \<^verbatim>\<open>PUT /api/todos/a\<close> with such a category id is answered 200 and stores it.
\<close>

theorem create_and_update_dangling_counterexample:
  "referential_integrity (user_data example_env example_store ''u1'') \<and>
   fst (todos_POST example_env ''2024-05-05T00:00:00.000Z'' ''n1'' (Some ''u1'') (Some ghost_body)
          example_store) =
     Response 201 (OneTodo
       \<lparr>todo_id = ''n1'', title = ''buy milk'', completed = False, categoryId = Some ''ghost'',
        todo_tags = [''nope''], createdAt = ''2024-05-05T00:00:00.000Z'',
        updatedAt = ''2024-05-05T00:00:00.000Z''\<rparr>) \<and>
   \<not> referential_integrity (user_data example_env
        (snd (todos_POST example_env ''2024-05-05T00:00:00.000Z'' ''n1'' (Some ''u1'') (Some ghost_body)
                example_store)) ''u1'') \<and>
   fst (todo_PUT example_env ''2024-05-05T00:00:00.000Z'' (Some ''u1'') ''a'' (Some ghost_update)
          example_store) =
     Response 200 (OneTodo
       ((example_todo ''a'' (Some ''ghost'') [''urgent''])\<lparr>updatedAt := ''2024-05-05T00:00:00.000Z''\<rparr>)) \<and>
   \<not> referential_integrity (user_data example_env
        (snd (todo_PUT example_env ''2024-05-05T00:00:00.000Z'' (Some ''u1'') ''a'' (Some ghost_update)
                example_store)) ''u1'')"
  by code_simp

end
